theory Spec2Isabelle
  imports Complex_Main
begin

section \<open>JavaScript numbers and typed arrays\<close>

text \<open>
  The sources are JavaScript. A number read from a \<^verbatim>\<open>Float32Array\<close> or
  \<^verbatim>\<open>Float64Array\<close> is modelled as a real: the operations the coordinate adapter applies
  (copying and negation) are exact on IEEE doubles, so nothing is lost there. A read past
  the end of a typed array gives \<^verbatim>\<open>undefined\<close>, and arithmetic on \<^verbatim>\<open>undefined\<close> gives
  \<^verbatim>\<open>NaN\<close>; both are values of the model.
\<close>

datatype jsval = Num real | NaN | Undefined

definition rd :: "real list \<Rightarrow> nat \<Rightarrow> jsval" where
  \<comment> \<open>\<^verbatim>\<open>buffer[i]\<close> on a typed array of floats\<close>
  "rd buffer i = (if i < length buffer then Num (buffer ! i) else Undefined)"

fun js_neg :: "jsval \<Rightarrow> jsval" where
  \<comment> \<open>unary minus\<close>
  "js_neg (Num r) = Num (- r)"
| "js_neg NaN = NaN"
| "js_neg Undefined = NaN"

section \<open>Coordinate adapter (mujocoUtils.js)\<close>

text \<open>\<^verbatim>\<open>THREE.Vector3.set(x, y, z)\<close> and \<^verbatim>\<open>THREE.Quaternion.set(x, y, z, w)\<close> store their
  arguments in the fields of the same names. (\<^verbatim>\<open>Vector3.set\<close> keeps the old third field
  when its third argument is \<^verbatim>\<open>undefined\<close>. \<^verbatim>\<open>getPosition\<close> hands it one only without the
  swizzle and for a triple that ends past the buffer, where the result below has
  \<^verbatim>\<open>undefined\<close>; every call in the repository uses the swizzle.)\<close>

record vec3 =
  vx :: jsval
  vy :: jsval
  vz :: jsval

record quat =
  qx :: jsval
  qy :: jsval
  qz :: jsval
  qw :: jsval

definition getPosition :: "real list \<Rightarrow> nat \<Rightarrow> bool \<Rightarrow> vec3" where
  "getPosition buffer index swizzle =
     (if swizzle then
        \<lparr> vx = rd buffer ((index * 3) + 0),
          vy = rd buffer ((index * 3) + 2),
          vz = js_neg (rd buffer ((index * 3) + 1)) \<rparr>
      else
        \<lparr> vx = rd buffer ((index * 3) + 0),
          vy = rd buffer ((index * 3) + 1),
          vz = rd buffer ((index * 3) + 2) \<rparr>)"

definition getQuaternion :: "real list \<Rightarrow> nat \<Rightarrow> bool \<Rightarrow> quat" where
  "getQuaternion buffer index swizzle =
     (if swizzle then
        \<lparr> qx = js_neg (rd buffer ((index * 4) + 1)),
          qy = js_neg (rd buffer ((index * 4) + 3)),
          qz = rd buffer ((index * 4) + 2),
          qw = js_neg (rd buffer ((index * 4) + 0)) \<rparr>
      else
        \<lparr> qx = rd buffer ((index * 4) + 0),
          qy = rd buffer ((index * 4) + 1),
          qz = rd buffer ((index * 4) + 2),
          qw = rd buffer ((index * 4) + 3) \<rparr>)"

definition toMujocoPos :: "vec3 \<Rightarrow> vec3" where
  "toMujocoPos target = \<lparr> vx = vx target, vy = js_neg (vz target), vz = vy target \<rparr>"

text \<open>
  The orientation mapping as the specification words it: the engine components
  \<open>(w, x, y, z)\<close> stored at the index go to \<open>(-x, -w, z, -y)\<close>. The four numbers are read
  as the arguments \<open>(x, y, z, w)\<close> of \<^verbatim>\<open>Quaternion.set\<close> in the first definition and as the
  components \<open>(w, x, y, z)\<close> of the render quaternion in the second. Both are used only to
  compare with \<^const>\<open>getQuaternion\<close>.
\<close>

definition spec_toRenderOrientation :: "real list \<Rightarrow> nat \<Rightarrow> quat" where
  "spec_toRenderOrientation buffer index =
     (let w = rd buffer ((index * 4) + 0);
          x = rd buffer ((index * 4) + 1);
          y = rd buffer ((index * 4) + 2);
          z = rd buffer ((index * 4) + 3)
      in \<lparr> qx = js_neg x, qy = js_neg w, qz = z, qw = js_neg y \<rparr>)"

definition spec_toRenderOrientation_wxyz :: "real list \<Rightarrow> nat \<Rightarrow> quat" where
  "spec_toRenderOrientation_wxyz buffer index =
     (let w = rd buffer ((index * 4) + 0);
          x = rd buffer ((index * 4) + 1);
          y = rd buffer ((index * 4) + 2);
          z = rd buffer ((index * 4) + 3)
      in \<lparr> qx = js_neg w, qy = z, qz = js_neg y, qw = js_neg x \<rparr>)"

section \<open>Gait controller (locomotionController.js)\<close>

definition NUM_LEGS :: nat where "NUM_LEGS = 4"
definition JOINTS_PER_LEG :: nat where "JOINTS_PER_LEG = 3"
definition NUM_MOTORS :: nat where "NUM_MOTORS = NUM_LEGS * JOINTS_PER_LEG"

definition FR :: nat where "FR = 0"
definition FL :: nat where "FL = 1"
definition RR :: nat where "RR = 2"
definition RL :: nat where "RL = 3"

definition HIP_JOINT :: nat where "HIP_JOINT = 0"
definition THIGH_JOINT :: nat where "THIGH_JOINT = 1"
definition CALF_JOINT :: nat where "CALF_JOINT = 2"

definition DEFAULT_POSE :: "real list" where
  "DEFAULT_POSE =
     [0, 9/10, -(18/10),
      0, 9/10, -(18/10),
      0, 9/10, -(18/10),
      0, 9/10, -(18/10)]"

definition TROT_CYCLE_DURATION :: real where "TROT_CYCLE_DURATION = 6/10"
definition TROT_STEP_HEIGHT :: real where "TROT_STEP_HEIGHT = 1/10"
definition TROT_STEP_LENGTH :: real where "TROT_STEP_LENGTH = 15/100"

definition TROT_PAIRS :: "(nat \<times> nat) list" where
  "TROT_PAIRS = [(FL, RR), (FR, RL)]"

text \<open>
  The controller object. \<open>ctrl\<close> is \<^verbatim>\<open>this.simulation.ctrl\<close>, the engine's actuator command
  buffer (a \<^verbatim>\<open>Float64Array\<close>): a write past its end is dropped, which is what
  \<open>xs[i := v]\<close> does, and a read past its end gives \<^verbatim>\<open>undefined\<close>.
\<close>

record controller =
  ctrl :: "real list"
  time :: real
  phase :: real
  isMoving :: bool
  direction :: "real \<times> real \<times> real"
  speed :: real

definition reset :: "controller \<Rightarrow> controller" where
  "reset s = s\<lparr> ctrl := fold (\<lambda>i c. c[i := DEFAULT_POSE ! i]) [0..<NUM_MOTORS] (ctrl s) \<rparr>"

definition new_controller :: "real list \<Rightarrow> controller" where
  \<comment> \<open>the constructor\<close>
  "new_controller simulation_ctrl =
     reset \<lparr> ctrl = simulation_ctrl, time = 0, phase = 0, isMoving = False,
             direction = (1, 0, 0), speed = 1/2 \<rparr>"

definition normalize :: "real \<times> real \<times> real \<Rightarrow> real \<times> real \<times> real" where
  \<comment> \<open>\<^verbatim>\<open>Vector3.normalize\<close>: \<^verbatim>\<open>divideScalar(this.length() || 1)\<close>\<close>
  "normalize v =
     (case v of (x, y, z) \<Rightarrow>
        let l = sqrt (x * x + y * y + z * z);
            d = (if l = 0 then 1 else l)
        in (x * (1 / d), y * (1 / d), z * (1 / d)))"

definition setDirection :: "real \<Rightarrow> real \<Rightarrow> controller \<Rightarrow> controller" where
  "setDirection x y s =
     s\<lparr> direction := normalize (x, y, 0),
        isMoving := (\<bar>x\<bar> > 1/10 \<or> \<bar>y\<bar> > 1/10) \<rparr>"

definition setSpeed :: "real \<Rightarrow> controller \<Rightarrow> controller" where
  "setSpeed sp s = s\<lparr> speed := max 0 (min 1 sp) \<rparr>"

definition js_rem :: "real \<Rightarrow> real \<Rightarrow> real" where
  \<comment> \<open>the \<^verbatim>\<open>%\<close> operator on numbers, for a non-zero divisor: the quotient is truncated
      towards zero, so the result has the sign of the dividend\<close>
  "js_rem a b =
     a - b * of_int (if 0 \<le> a / b then \<lfloor>a / b\<rfloor> else \<lceil>a / b\<rceil>)"

text \<open>
  The loop that returns to the standing pose adds small increments to the actuator values,
  and what it does depends on the rounding of doubles: an increment below the resolution of
  the value it is added to is absorbed. So the arithmetic of that loop is not modelled as
  exact: every operation is followed by \<open>fl\<close>, the rounding of a real to the nearest
  double, and a decimal literal that is not a double (\<^verbatim>\<open>0.9\<close>, \<^verbatim>\<open>-1.8\<close>, \<^verbatim>\<open>0.01\<close>) denotes
  its rounding; \<^verbatim>\<open>0.5\<close> and \<^verbatim>\<open>0\<close> are doubles, and \<^verbatim>\<open>Math.abs\<close> is exact. The rounding
  is a parameter of the model. \<open>rounding fl\<close> lists what the proofs use of it, each a
  property of IEEE 754 round-to-nearest on binary64 where no overflow occurs: it is
  monotone, it keeps a double as it is, zero is a double, and for an argument of magnitude
  at most 1000000 its error is at most the magnitude of the argument divided by \<open>2 ^ 53\<close>
  (for an argument of magnitude below 1/1000: at most 1/1000 divided by \<open>2 ^ 53\<close>).
\<close>

definition rounding :: "(real \<Rightarrow> real) \<Rightarrow> bool" where
  "rounding fl \<longleftrightarrow>
     (\<forall>x y. x \<le> y \<longrightarrow> fl x \<le> fl y)
   \<and> (\<forall>x. fl (fl x) = fl x)
   \<and> fl 0 = 0
   \<and> (\<forall>x. \<bar>x\<bar> \<le> 1000000 \<longrightarrow> \<bar>fl x - x\<bar> \<le> max \<bar>x\<bar> (1/1000) / 2 ^ 53)"

definition returnToStandingPose_at :: "(real \<Rightarrow> real) \<Rightarrow> real \<Rightarrow> nat \<Rightarrow> real list \<Rightarrow> real list" where
  \<comment> \<open>one iteration of the loop of \<^verbatim>\<open>returnToStandingPose\<close>; a read of \<^verbatim>\<open>ctrl[i]\<close> past
      the end makes \<^verbatim>\<open>diff\<close> a \<^verbatim>\<open>NaN\<close>, and the comparison false\<close>
  "returnToStandingPose_at fl dt i c =
     (let returnSpeed = 1/2 in
      if i < length c then
        (let current = c ! i;
             target = fl (DEFAULT_POSE ! i);
             diff = fl (target - current)
         in if \<bar>diff\<bar> > fl (1/100)
            then c[i := fl (c ! i + fl (fl (diff * returnSpeed) * dt))] else c)
      else c)"

definition returnToStandingPose :: "(real \<Rightarrow> real) \<Rightarrow> real \<Rightarrow> controller \<Rightarrow> controller" where
  "returnToStandingPose fl dt s =
     s\<lparr> ctrl := fold (returnToStandingPose_at fl dt) [0..<NUM_MOTORS] (ctrl s) \<rparr>"

definition calculateLegJointPositions :: "nat \<Rightarrow> real \<Rightarrow> controller \<Rightarrow> controller" where
  "calculateLegJointPositions leg ph s =
     (let baseIdx = leg * JOINTS_PER_LEG;
          hipPos = DEFAULT_POSE ! (baseIdx + HIP_JOINT);
          thighPos = DEFAULT_POSE ! (baseIdx + THIGH_JOINT);
          calfPos = DEFAULT_POSE ! (baseIdx + CALF_JOINT);
          (hipPos', thighPos', calfPos') =
            (if ph > 0 then
               (let heightFactor = sin (ph * pi);
                    swingProgress = ph;
                    legDirectionX = fst (direction s);
                    legDirectionY = fst (snd (direction s));
                    legDirectionY = (if leg = FL \<or> leg = RL then legDirectionY * (- 1) else legDirectionY);
                    legDirectionX = (if leg = RR \<or> leg = RL then legDirectionX * (- 1) else legDirectionX);
                    stepX = speed s * TROT_STEP_LENGTH * (swingProgress - 1/2) * legDirectionX;
                    stepY = speed s * TROT_STEP_LENGTH * (swingProgress - 1/2) * legDirectionY;
                    stepZ = speed s * TROT_STEP_HEIGHT * heightFactor
                in (hipPos + stepY * (8/10),
                    thighPos + (stepX * (1/2) - stepZ * (1/2)),
                    calfPos + stepZ * (8/10)))
             else (hipPos, thighPos, calfPos))
      in s\<lparr> ctrl := (ctrl s)[baseIdx + HIP_JOINT := hipPos',
                              baseIdx + THIGH_JOINT := thighPos',
                              baseIdx + CALF_JOINT := calfPos'] \<rparr>)"

definition legPhases :: "real \<Rightarrow> real list" where
  \<comment> \<open>the array \<^verbatim>\<open>legPhases\<close> that \<^verbatim>\<open>applyTrottingGait\<close> fills in from \<^verbatim>\<open>this.phase\<close>\<close>
  "legPhases p =
     (if p < 1/2 then
        [0, 0, 0, 0]
          [fst (TROT_PAIRS ! 0) := 0, snd (TROT_PAIRS ! 0) := 0,
           fst (TROT_PAIRS ! 1) := p * 2, snd (TROT_PAIRS ! 1) := p * 2]
      else
        [0, 0, 0, 0]
          [fst (TROT_PAIRS ! 0) := (p - 1/2) * 2, snd (TROT_PAIRS ! 0) := (p - 1/2) * 2,
           fst (TROT_PAIRS ! 1) := 0, snd (TROT_PAIRS ! 1) := 0])"

definition applyTrottingGait :: "controller \<Rightarrow> controller" where
  "applyTrottingGait s =
     fold (\<lambda>leg. calculateLegJointPositions leg (legPhases (phase s) ! leg)) [0..<NUM_LEGS] s"

definition update_fl :: "(real \<Rightarrow> real) \<Rightarrow> real \<Rightarrow> controller \<Rightarrow> controller" where
  \<comment> \<open>\<^verbatim>\<open>update(dt)\<close>, with the rounding \<open>fl\<close> of the sum \<^verbatim>\<open>this.time += dt\<close> and of the
      loop of \<^verbatim>\<open>returnToStandingPose\<close>; the arithmetic of the gait branch is kept exact\<close>
  "update_fl fl dt s =
     (let s1 = s\<lparr> time := fl (time s + dt) \<rparr> in
      if \<not> isMoving s1 then returnToStandingPose fl dt s1
      else applyTrottingGait
             (s1\<lparr> phase := js_rem (time s1) TROT_CYCLE_DURATION / TROT_CYCLE_DURATION \<rparr>))"

definition update :: "real \<Rightarrow> controller \<Rightarrow> controller" where
  \<comment> \<open>\<^verbatim>\<open>update(dt)\<close> in exact arithmetic: nothing is rounded\<close>
  "update dt s = update_fl (\<lambda>x. x) dt s"

section \<open>Tendon synchronisation (the render loop of main.js)\<close>

text \<open>
  The engine's address and count tables are \<^verbatim>\<open>Int32Array\<close>s that hold indices and counts;
  they are lists of naturals here. A read past the end gives \<^verbatim>\<open>undefined\<close>.
\<close>

definition rd_nat :: "nat list \<Rightarrow> nat \<Rightarrow> nat option" where
  "rd_nat buffer i = (if i < length buffer then Some (buffer ! i) else None)"

definition vlength :: "vec3 \<Rightarrow> jsval" where
  \<comment> \<open>\<^verbatim>\<open>Vector3.length\<close>: \<^verbatim>\<open>Math.sqrt(x * x + y * y + z * z)\<close>\<close>
  "vlength v =
     (case (vx v, vy v, vz v) of
        (Num x, Num y, Num z) \<Rightarrow> Num (sqrt (x * x + y * y + z * z))
      | _ \<Rightarrow> NaN)"

definition js_gt :: "jsval \<Rightarrow> real \<Rightarrow> bool" where
  \<comment> \<open>\<^verbatim>\<open>a > b\<close> for a number \<open>b\<close>: false when \<open>a\<close> is \<^verbatim>\<open>NaN\<close>\<close>
  "js_gt a b = (case a of Num x \<Rightarrow> x > b | _ \<Rightarrow> False)"

text \<open>
  An instance matrix is what \<^verbatim>\<open>Matrix4.compose\<close> builds; the renderer's arithmetic is
  outside the repository, so a matrix is recorded by the arguments it is composed from:
  the position and radius of a sphere, the two end points and the radius of a capsule.
  An \<^verbatim>\<open>InstancedMesh\<close> of capacity \<open>n\<close> owns \<open>n\<close> matrix slots in a typed array and starts
  with \<open>count = n\<close>; \<^verbatim>\<open>setMatrixAt\<close> writes into the typed array, where a write past the
  end is dropped.
\<close>

datatype instance_matrix =
    Sphere_compose vec3 jsval
  | Capsule_compose vec3 vec3 jsval

record instanced_mesh =
  instanceMatrix :: "instance_matrix option list"
  count :: nat

definition new_InstancedMesh :: "nat \<Rightarrow> instanced_mesh" where
  "new_InstancedMesh n = \<lparr> instanceMatrix = replicate n None, count = n \<rparr>"

definition setMatrixAt :: "nat \<Rightarrow> instance_matrix \<Rightarrow> instanced_mesh \<Rightarrow> instanced_mesh" where
  "setMatrixAt index m p =
     (if index < length (instanceMatrix p)
      then p\<lparr> instanceMatrix := (instanceMatrix p)[index := Some m] \<rparr>
      else p)"

text \<open>The two pools that \<^verbatim>\<open>loadSceneFromURL\<close> hangs on the root (\<^verbatim>\<open>mujocoRoot.cylinders\<close>
  and \<^verbatim>\<open>mujocoRoot.spheres\<close>), each of capacity 1023.\<close>

record tendon_pools =
  cylinders :: instanced_mesh
  spheres :: instanced_mesh

definition new_tendon_pools :: tendon_pools where
  "new_tendon_pools = \<lparr> cylinders = new_InstancedMesh 1023, spheres = new_InstancedMesh 1023 \<rparr>"

text \<open>What a frame reads: \<^verbatim>\<open>model.ntendon\<close>, \<^verbatim>\<open>model.tendon_width\<close> and, from the simulation,
  \<^verbatim>\<open>ten_wrapadr\<close>, \<^verbatim>\<open>ten_wrapnum\<close> and \<^verbatim>\<open>wrap_xpos\<close>.\<close>

record tendon_frame =
  ntendon :: nat
  tendon_width :: "real list"
  ten_wrapadr :: "nat list"
  ten_wrapnum :: "nat list"
  wrap_xpos :: "real list"

definition tendon_pair :: "real list \<Rightarrow> jsval \<Rightarrow> nat \<Rightarrow> nat \<times> tendon_pools \<Rightarrow> nat \<times> tendon_pools" where
  \<comment> \<open>the body of the inner loop, on the counter \<^verbatim>\<open>numWraps\<close> and the pools\<close>
  "tendon_pair xpos r w acc =
     (case acc of (numWraps, mroot) \<Rightarrow>
        let tendonStart = getPosition xpos w True;
            tendonEnd = getPosition xpos (w + 1) True;
            validStart = js_gt (vlength tendonStart) (1/100);
            validEnd = js_gt (vlength tendonEnd) (1/100);
            mroot1 = (if validStart
                      then mroot\<lparr> spheres := setMatrixAt numWraps (Sphere_compose tendonStart r) (spheres mroot) \<rparr>
                      else mroot);
            mroot2 = (if validEnd
                      then mroot1\<lparr> spheres := setMatrixAt (numWraps + 1) (Sphere_compose tendonEnd r) (spheres mroot1) \<rparr>
                      else mroot1)
        in if validStart \<and> validEnd
           then (numWraps + 1,
                 mroot2\<lparr> cylinders := setMatrixAt numWraps (Capsule_compose tendonStart tendonEnd r) (cylinders mroot2) \<rparr>)
           else (numWraps, mroot2))"

definition tendon_wraps :: "tendon_frame \<Rightarrow> nat \<Rightarrow> nat list" where
  \<comment> \<open>the values of \<open>w\<close> of the inner loop for tendon \<open>t\<close>, from \<^verbatim>\<open>startW\<close> up to (and without)
      \<^verbatim>\<open>startW + ten_wrapnum[t] - 1\<close>; an \<^verbatim>\<open>undefined\<close> bound makes the loop condition false\<close>
  "tendon_wraps f t =
     (case (rd_nat (ten_wrapadr f) t, rd_nat (ten_wrapnum f) t) of
        (Some startW, Some n) \<Rightarrow> [startW ..< startW + n - 1]
      | _ \<Rightarrow> [])"

definition tendon_loop :: "tendon_frame \<Rightarrow> nat \<Rightarrow> nat \<times> tendon_pools \<Rightarrow> nat \<times> tendon_pools" where
  "tendon_loop f t acc =
     (let r = rd (tendon_width f) t
      in fold (tendon_pair (wrap_xpos f) r) (tendon_wraps f t) acc)"

definition update_tendons :: "tendon_frame \<Rightarrow> tendon_pools \<Rightarrow> tendon_pools" where
  \<comment> \<open>the block guarded by \<^verbatim>\<open>this.mujocoRoot && this.mujocoRoot.cylinders\<close>\<close>
  "update_tendons f mroot =
     (case fold (tendon_loop f) [0..<ntendon f] (0, mroot) of (numWraps, mroot') \<Rightarrow>
        mroot'\<lparr> cylinders := (cylinders mroot')\<lparr> count := numWraps \<rparr>,
                spheres := (spheres mroot')\<lparr> count := (if numWraps > 0 then numWraps + 1 else 0) \<rparr> \<rparr>)"

definition render_tendons :: "tendon_frame \<Rightarrow> tendon_pools option \<Rightarrow> tendon_pools option" where
  \<comment> \<open>\<open>None\<close> is the state before a scene has been loaded: \<^verbatim>\<open>this.mujocoRoot\<close> is not set\<close>
  "render_tendons f mujocoRoot = map_option (update_tendons f) mujocoRoot"

text \<open>The number of pairs of consecutive wrap points of a frame whose two end points both
  pass the validity test: the quantity the counter is compared with below.\<close>

definition valid_pair :: "real list \<Rightarrow> nat \<Rightarrow> bool" where
  "valid_pair xpos w =
     (js_gt (vlength (getPosition xpos w True)) (1/100)
    \<and> js_gt (vlength (getPosition xpos (w + 1) True)) (1/100))"

definition valid_pairs :: "tendon_frame \<Rightarrow> nat" where
  "valid_pairs f =
     sum_list (map (\<lambda>t. length (filter (valid_pair (wrap_xpos f)) (tendon_wraps f t))) [0..<ntendon f])"

text \<open>Test frames: one tendon of \<open>n\<close> wrap points that all lie at \<open>(1, 1, 1)\<close>, and one tendon
  of four wrap points whose second point is the dead point \<open>(0, 0, 0)\<close>.\<close>

definition long_tendon :: "nat \<Rightarrow> tendon_frame" where
  "long_tendon n =
     \<lparr> ntendon = 1, tendon_width = [1/100], ten_wrapadr = [0], ten_wrapnum = [n],
       wrap_xpos = replicate (3 * n) 1 \<rparr>"


section \<open>Scene builder (loadSceneFromURL in mujocoUtils.js)\<close>

subsection \<open>Numbers that may be undefined\<close>

text \<open>
  The builder indexes the model's tables with numbers it has read from other tables, so
  an index is a JavaScript value as well. All numbers of the language are doubles; the
  integer tables (\<^verbatim>\<open>Int32Array\<close>) are lists of integers here, or of naturals where the
  engine stores counts, addresses and enumeration tags, and their elements are read as
  numbers.
\<close>

definition js_index :: "jsval \<Rightarrow> nat option" where
  \<comment> \<open>the array index a property key denotes, if any\<close>
  "js_index v =
     (case v of
        Num r \<Rightarrow> (if 0 \<le> r \<and> r = of_int \<lfloor>r\<rfloor> then Some (nat \<lfloor>r\<rfloor>) else None)
      | _ \<Rightarrow> None)"

definition rd_at :: "real list \<Rightarrow> jsval \<Rightarrow> jsval" where
  "rd_at buffer j = (case js_index j of Some i \<Rightarrow> rd buffer i | None \<Rightarrow> Undefined)"

definition rdN :: "nat list \<Rightarrow> nat \<Rightarrow> jsval" where
  "rdN buffer i = (if i < length buffer then Num (real (buffer ! i)) else Undefined)"

definition rdN_at :: "nat list \<Rightarrow> jsval \<Rightarrow> jsval" where
  "rdN_at buffer j = (case js_index j of Some i \<Rightarrow> rdN buffer i | None \<Rightarrow> Undefined)"

definition rdI :: "int list \<Rightarrow> nat \<Rightarrow> jsval" where
  "rdI buffer i = (if i < length buffer then Num (real_of_int (buffer ! i)) else Undefined)"

definition rdI_at :: "int list \<Rightarrow> jsval \<Rightarrow> jsval" where
  "rdI_at buffer j = (case js_index j of Some i \<Rightarrow> rdI buffer i | None \<Rightarrow> Undefined)"

definition js_arith :: "(real \<Rightarrow> real \<Rightarrow> real) \<Rightarrow> jsval \<Rightarrow> jsval \<Rightarrow> jsval" where
  \<comment> \<open>a binary arithmetic operator: \<^verbatim>\<open>undefined\<close> converts to \<^verbatim>\<open>NaN\<close>, and \<^verbatim>\<open>NaN\<close> propagates\<close>
  "js_arith f a b = (case (a, b) of (Num x, Num y) \<Rightarrow> Num (f x y) | _ \<Rightarrow> NaN)"

definition js_mul :: "jsval \<Rightarrow> jsval \<Rightarrow> jsval" where
  "js_mul = js_arith (*)"

definition js_add :: "jsval \<Rightarrow> jsval \<Rightarrow> jsval" where
  "js_add = js_arith (+)"

definition js_sub :: "jsval \<Rightarrow> jsval \<Rightarrow> jsval" where
  "js_sub = js_arith (-)"

definition js_lt :: "jsval \<Rightarrow> jsval \<Rightarrow> bool" where
  \<comment> \<open>\<^verbatim>\<open>a < b\<close>\<close>
  "js_lt a b = (case (a, b) of (Num x, Num y) \<Rightarrow> x < y | _ \<Rightarrow> False)"

definition js_eq :: "jsval \<Rightarrow> jsval \<Rightarrow> bool" where
  \<comment> \<open>\<^verbatim>\<open>a == b\<close> on numbers and \<^verbatim>\<open>undefined\<close>; \<^verbatim>\<open>a != b\<close> is its negation\<close>
  "js_eq a b =
     (case (a, b) of
        (Num x, Num y) \<Rightarrow> x = y
      | (Undefined, Undefined) \<Rightarrow> True
      | _ \<Rightarrow> False)"

fun to_number :: "jsval \<Rightarrow> jsval" where
  \<comment> \<open>what a float typed array stores when it is given the value\<close>
  "to_number Undefined = NaN"
| "to_number v = v"

subsection \<open>The engine's model\<close>

text \<open>
  The tables of \<^verbatim>\<open>mujoco.Model\<close> that the builder reads. \<open>names\<close> is \<open>None\<close> when
  \<^verbatim>\<open>model.names\<close> is absent. The vertex and normal buffers are written by the builder, and
  a write can store \<^verbatim>\<open>NaN\<close>, so their elements are values.
\<close>

record mj_model =
  names :: "nat list option"
  nbody :: nat
  name_bodyadr :: "nat list"
  ngeom :: nat
  geom_group :: "nat list"
  geom_bodyid :: "nat list"
  geom_type :: "nat list"
  geom_size :: "real list"
  geom_dataid :: "int list"
  geom_rgba :: "real list"
  geom_matid :: "int list"
  geom_pos :: "real list"
  geom_quat :: "real list"
  mat_rgba :: "real list"
  mat_texid :: "int list"
  mat_specular :: "real list"
  mat_reflectance :: "real list"
  mat_shininess :: "real list"
  tex_width :: "int list"
  tex_height :: "int list"
  tex_adr :: "nat list"
  tex_rgb :: "nat list"
  mesh_vert :: "jsval list"
  mesh_normal :: "jsval list"
  mesh_texcoord :: "real list"
  mesh_face :: "nat list"
  mesh_vertadr :: "nat list"
  mesh_vertnum :: "nat list"
  mesh_texcoordadr :: "int list"
  mesh_faceadr :: "nat list"
  mesh_facenum :: "nat list"
  nlight :: nat
  light_directional :: "nat list"
  light_attenuation :: "real list"

text \<open>
  Modelled from the spec: the engine's enumeration \<^verbatim>\<open>mjtGeom\<close>, which the builder reads as
  \<^verbatim>\<open>mujoco.mjtGeom.mjGEOM_PLANE.value\<close> and so on, is not part of the sources. Its tags are
  numbered from 0 in the order in which the specification lists the shape types (plane,
  height field, sphere, capsule, ellipsoid, cylinder, box, triangle mesh); the builder
  itself uses the literals 0 for the plane and 4 for the ellipsoid.
\<close>

definition mjGEOM_PLANE :: jsval where "mjGEOM_PLANE = Num 0"
definition mjGEOM_HFIELD :: jsval where "mjGEOM_HFIELD = Num 1"
definition mjGEOM_SPHERE :: jsval where "mjGEOM_SPHERE = Num 2"
definition mjGEOM_CAPSULE :: jsval where "mjGEOM_CAPSULE = Num 3"
definition mjGEOM_ELLIPSOID :: jsval where "mjGEOM_ELLIPSOID = Num 4"
definition mjGEOM_CYLINDER :: jsval where "mjGEOM_CYLINDER = Num 5"
definition mjGEOM_BOX :: jsval where "mjGEOM_BOX = Num 6"
definition mjGEOM_MESH :: jsval where "mjGEOM_MESH = Num 7"

subsection \<open>Renderer objects\<close>

text \<open>
  The renderer's classes are outside the repository; an object is recorded by the
  arguments its constructor is given and by the properties the builder sets, except for
  the colour and the opacity of a material, which the builder reads back. Objects
  that the builder compares by identity (textures and materials) carry the serial
  number of their allocation.
\<close>

datatype error = Error string | RangeError

record view =
  \<comment> \<open>the result of \<^verbatim>\<open>subarray(begin, end)\<close>: a window on the buffer it was taken from, which
      shares the buffer's storage\<close>
  v_begin :: nat
  v_end :: nat

record buffer_geometry =
  bg_position :: view
  bg_normal :: view
  bg_uv :: view
  bg_index :: "nat list"

datatype geometry =
    SphereGeometry jsval
  | CapsuleGeometry jsval jsval
  | CylinderGeometry jsval jsval jsval
  | BoxGeometry jsval jsval jsval
  | BufferGeometry buffer_geometry

record texture =
  tex_ref :: nat
  tex_data :: "nat list"
  tex_w :: jsval
  tex_h :: jsval
  tex_repeat :: "nat \<times> nat"

record material =
  mat_ref :: nat
  color :: "jsval \<times> jsval \<times> jsval"
  opacity :: jsval
  transparent :: bool
  specularIntensity :: jsval
  reflectivity :: jsval
  roughness :: jsval
  metalness :: jsval
  map_tex :: "texture option"

record mesh_object =
  is_reflector :: bool
  reflector_texture :: "texture option"
  mesh_geometry :: "geometry option"
  mesh_material :: "material option"
  castShadow :: bool
  receiveShadow :: bool
  mesh_bodyID :: jsval
  mesh_position :: vec3
  mesh_quaternion :: "quat option"
  mesh_scale :: "(jsval \<times> jsval \<times> jsval) option"

record light_object =
  light_is_directional :: bool
  light_decay :: jsval

text \<open>
  A node of the scene graph. A group carries its name (none when the name that was
  assigned is \<^verbatim>\<open>undefined\<close>), its \<^verbatim>\<open>bodyID\<close> (none for the root),
  its flag \<^verbatim>\<open>has_custom_mesh\<close> and its children. While a scene is built the body groups
  live in the dictionary \<^verbatim>\<open>bodies\<close> and are shared by reference: \<open>BodyRef b\<close> is the child
  \<^verbatim>\<open>bodies[b]\<close>. \<open>Cylinders\<close> and \<open>Spheres\<close> are the two tendon pools of the root.
\<close>

datatype node =
    Group "string option" "jsval option" bool "node list"
  | Mesh mesh_object
  | Light light_object
  | BodyRef jsval
  | Cylinders
  | Spheres
  | Other string

fun add_child :: "node \<Rightarrow> node \<Rightarrow> node" where
  \<comment> \<open>\<^verbatim>\<open>parent.add(child)\<close>\<close>
  "add_child (Group name bodyID has_custom_mesh children) child =
     Group name bodyID has_custom_mesh (children @ [child])"
| "add_child n child = n"

fun set_has_custom_mesh :: "node \<Rightarrow> node" where
  "set_has_custom_mesh (Group name bodyID has_custom_mesh children) = Group name bodyID True children"
| "set_has_custom_mesh n = n"

subsection \<open>The state of a build\<close>

record build =
  model :: mj_model
  bodies :: "jsval \<rightharpoonup> node"
  meshes :: "jsval \<rightharpoonup> geometry"
  material :: material
  next_ref :: nat

definition default_material :: "nat \<Rightarrow> material" where
  \<comment> \<open>\<^verbatim>\<open>new THREE.MeshPhysicalMaterial()\<close> with its colour set to white\<close>
  "default_material r =
     \<lparr> mat_ref = r, color = (Num 1, Num 1, Num 1), opacity = Num 1, transparent = False,
       specularIntensity = Undefined, reflectivity = Undefined, roughness = Undefined,
       metalness = Undefined, map_tex = None \<rparr>"

subsection \<open>Body groups\<close>

function scan_name :: "nat list \<Rightarrow> nat \<Rightarrow> nat" where
  \<comment> \<open>the \<^verbatim>\<open>while\<close> loop that moves \<^verbatim>\<open>end_idx\<close> to the next zero byte\<close>
  "scan_name names_array end_idx =
     (if end_idx < length names_array \<and> names_array ! end_idx \<noteq> 0
      then scan_name names_array (end_idx + 1) else end_idx)"
  by pat_completeness auto
termination
  by (relation "measure (\<lambda>(names_array, end_idx). length names_array - end_idx)") auto

definition body_name :: "nat list \<Rightarrow> jsval \<Rightarrow> string" where
  \<comment> \<open>the decoded bytes from \<^verbatim>\<open>start_idx\<close> to the next zero byte; when \<^verbatim>\<open>start_idx\<close> is
      \<^verbatim>\<open>undefined\<close> the loop does not run and \<^verbatim>\<open>subarray(undefined, undefined)\<close> is the whole
      array\<close>
  "body_name names_array start_idx =
     (case js_index start_idx of
        Some s \<Rightarrow> map char_of (take (scan_name names_array s - s) (drop s names_array))
      | None \<Rightarrow> map char_of names_array)"

definition ensure_body :: "nat list \<Rightarrow> jsval \<Rightarrow> build \<Rightarrow> build" where
  \<comment> \<open>the block \<^verbatim>\<open>if (!(b in bodies))\<close>; nothing in its \<^verbatim>\<open>try\<close> part can throw, so the
      \<^verbatim>\<open>catch\<close> part is never entered\<close>
  "ensure_body names_array b st =
     (case bodies st b of
        Some _ \<Rightarrow> st
      | None \<Rightarrow>
          st\<lparr> bodies := (bodies st)
                 (b \<mapsto> Group (Some (body_name names_array (rdN_at (name_bodyadr (model st)) b))) (Some b) False []) \<rparr>)"

subsection \<open>Geometry synthesis\<close>

definition subarray :: "nat \<Rightarrow> jsval \<Rightarrow> jsval \<Rightarrow> view" where
  \<comment> \<open>\<^verbatim>\<open>buffer.subarray(begin, end)\<close> on a buffer of the given length, for bounds that are
      computed numbers: a bound is truncated to an integer (\<^verbatim>\<open>NaN\<close> counts as 0), a negative
      bound counts from the end, both are clamped to the buffer, and an end before the
      beginning gives the empty window\<close>
  "subarray len b e =
     (let clamp = (\<lambda>v. case v of
                     Num r \<Rightarrow>
                       (let k = (if 0 \<le> r then \<lfloor>r\<rfloor> else \<lceil>r\<rceil>)
                        in if k < 0 then nat (max (int len + k) 0) else min (nat k) len)
                   | _ \<Rightarrow> 0)
      in \<lparr> v_begin = clamp b, v_end = max (clamp b) (clamp e) \<rparr>)"

definition view_length :: "view \<Rightarrow> nat" where
  "view_length vw = v_end vw - v_begin vw"

definition view_get :: "view \<Rightarrow> jsval list \<Rightarrow> nat \<Rightarrow> jsval" where
  "view_get vw buffer i =
     (if i < view_length vw \<and> v_begin vw + i < length buffer then buffer ! (v_begin vw + i)
      else Undefined)"

definition view_set :: "view \<Rightarrow> nat \<Rightarrow> jsval \<Rightarrow> jsval list \<Rightarrow> jsval list" where
  "view_set vw i x buffer =
     (if i < view_length vw \<and> v_begin vw + i < length buffer
      then buffer[v_begin vw + i := to_number x] else buffer)"

definition swizzle_at :: "view \<Rightarrow> nat \<Rightarrow> jsval list \<Rightarrow> jsval list" where
  \<comment> \<open>the body of the loops over \<^verbatim>\<open>vertex_buffer\<close> and \<^verbatim>\<open>normal_buffer\<close>\<close>
  "swizzle_at vw v buffer =
     (let temp = view_get vw buffer (v + 1);
          buffer1 = view_set vw (v + 1) (view_get vw buffer (v + 2)) buffer
      in view_set vw (v + 2) (js_neg temp) buffer1)"

definition swizzle_view :: "view \<Rightarrow> jsval list \<Rightarrow> jsval list" where
  \<comment> \<open>\<^verbatim>\<open>for (let v = 0; v < buffer.length; v += 3)\<close>\<close>
  "swizzle_view vw buffer =
     fold (\<lambda>k. swizzle_at vw (3 * k)) [0 ..< (view_length vw + 2) div 3] buffer"

definition new_mesh_geometry :: "jsval \<Rightarrow> mj_model \<Rightarrow> geometry \<times> mj_model" where
  \<comment> \<open>the branch \<^verbatim>\<open>!(meshID in meshes)\<close>: the geometry it builds and the model it leaves\<close>
  "new_mesh_geometry meshID m =
     (let vadr = rdN_at (mesh_vertadr m) meshID;
          vnum = rdN_at (mesh_vertnum m) meshID;
          vertex_buffer = subarray (length (mesh_vert m))
                            (js_mul vadr (Num 3)) (js_mul (js_add vadr vnum) (Num 3));
          normal_buffer = subarray (length (mesh_normal m))
                            (js_mul vadr (Num 3)) (js_mul (js_add vadr vnum) (Num 3));
          tadr = rdI_at (mesh_texcoordadr m) meshID;
          uv_buffer = subarray (length (mesh_texcoord m))
                            (js_mul tadr (Num 2)) (js_mul (js_add tadr vnum) (Num 2));
          fadr = rdN_at (mesh_faceadr m) meshID;
          fnum = rdN_at (mesh_facenum m) meshID;
          triangle_buffer = subarray (length (mesh_face m))
                            (js_mul fadr (Num 3)) (js_mul (js_add fadr fnum) (Num 3))
      in (BufferGeometry
            \<lparr> bg_position = vertex_buffer, bg_normal = normal_buffer, bg_uv = uv_buffer,
              bg_index = take (view_length triangle_buffer) (drop (v_begin triangle_buffer) (mesh_face m)) \<rparr>,
          m\<lparr> mesh_vert := swizzle_view vertex_buffer (mesh_vert m),
             mesh_normal := swizzle_view normal_buffer (mesh_normal m) \<rparr>))"

definition make_geometry :: "nat \<Rightarrow> jsval \<Rightarrow> jsval \<Rightarrow> build \<Rightarrow> geometry \<times> build" where
  \<comment> \<open>from \<^verbatim>\<open>let geometry = new THREE.SphereGeometry(size[0] * 0.5)\<close> to
      \<^verbatim>\<open>// Done with geometry creation\<close>\<close>
  "make_geometry g b type st =
     (let m = model st;
          size0 = rd (geom_size m) ((g * 3) + 0);
          size1 = rd (geom_size m) ((g * 3) + 1);
          size2 = rd (geom_size m) ((g * 3) + 2);
          geometry = SphereGeometry (js_mul size0 (Num (1/2)))
      in if js_eq type mjGEOM_PLANE then (geometry, st)
         else if js_eq type mjGEOM_HFIELD then (geometry, st)
         else if js_eq type mjGEOM_SPHERE then (SphereGeometry size0, st)
         else if js_eq type mjGEOM_CAPSULE then (CapsuleGeometry size0 (js_mul size1 (Num 2)), st)
         else if js_eq type mjGEOM_ELLIPSOID then (SphereGeometry (Num 1), st)
         else if js_eq type mjGEOM_CYLINDER then (CylinderGeometry size0 size0 (js_mul size1 (Num 2)), st)
         else if js_eq type mjGEOM_BOX
           then (BoxGeometry (js_mul size0 (Num 2)) (js_mul size2 (Num 2)) (js_mul size1 (Num 2)), st)
         else if js_eq type mjGEOM_MESH then
           (let meshID = rdI (geom_dataid m) g;
                (geometry', st1) =
                  (case meshes st meshID of
                     None \<Rightarrow>
                       (case new_mesh_geometry meshID m of (geo, m') \<Rightarrow>
                          (geo, st\<lparr> model := m', meshes := (meshes st)(meshID \<mapsto> geo) \<rparr>))
                   | Some geo \<Rightarrow> (geo, st))
            in (geometry',
                st1\<lparr> bodies := (case bodies st1 b of
                                   Some body \<Rightarrow> (bodies st1)(b \<mapsto> set_has_custom_mesh body)
                                 | None \<Rightarrow> bodies st1) \<rparr>))
         else (geometry, st))"

subsection \<open>Material resolution\<close>

definition new_Uint8Array :: "jsval \<Rightarrow> error + nat" where
  \<comment> \<open>the length of \<^verbatim>\<open>new Uint8Array(n)\<close>; the constructor throws a \<^verbatim>\<open>RangeError\<close> for a
      negative length and for one beyond the largest index of the language (an engine
      gives up long before that)\<close>
  "new_Uint8Array n =
     (case n of
        Num r \<Rightarrow> (if r \<le> - 1 \<or> r > 2 ^ 53 - 1 then Inl RangeError else Inr (nat \<lfloor>r\<rfloor>))
      | _ \<Rightarrow> Inr 0)"

definition byte_at :: "nat list \<Rightarrow> jsval \<Rightarrow> nat" where
  \<comment> \<open>the byte that storing \<^verbatim>\<open>rgbArray[j]\<close> in a \<^verbatim>\<open>Uint8Array\<close> leaves: 0 for \<^verbatim>\<open>undefined\<close>\<close>
  "byte_at rgbArray j =
     (case js_index j of Some i \<Rightarrow> (if i < length rgbArray then rgbArray ! i mod 256 else 0) | None \<Rightarrow> 0)"

definition pixel_count :: "jsval \<Rightarrow> nat" where
  \<comment> \<open>how often \<^verbatim>\<open>for (let p = 0; p < width * height; p++)\<close> runs\<close>
  "pixel_count wh = (case wh of Num r \<Rightarrow> (if r \<le> 0 then 0 else nat \<lceil>r\<rceil>) | _ \<Rightarrow> 0)"

definition make_texture :: "mj_model \<Rightarrow> jsval \<Rightarrow> nat \<Rightarrow> error + texture" where
  \<comment> \<open>the block \<^verbatim>\<open>if (texId != -1)\<close>; \<open>r\<close> is the serial number of the new texture\<close>
  "make_texture m texId r =
     (let width = rdI_at (tex_width m) texId;
          height = rdI_at (tex_height m) texId;
          offset = rdN_at (tex_adr m) texId;
          rgbArray = tex_rgb m
      in case new_Uint8Array (js_mul (js_mul width height) (Num 4)) of
           Inl e \<Rightarrow> Inl e
         | Inr len \<Rightarrow>
             Inr \<lparr> tex_ref = r,
                   tex_data = take len (concat (map (\<lambda>p.
                                [byte_at rgbArray (js_add offset (Num (real ((p * 3) + 0)))),
                                 byte_at rgbArray (js_add offset (Num (real ((p * 3) + 1)))),
                                 byte_at rgbArray (js_add offset (Num (real ((p * 3) + 2)))),
                                 1]) [0 ..< pixel_count (js_mul width height)])),
                   tex_w = width, tex_h = height,
                   tex_repeat = (if js_eq texId (Num 2) then (50, 50) else (1, 1)) \<rparr>)"

definition geom_appearance :: "mj_model \<Rightarrow> nat \<Rightarrow> nat \<Rightarrow> error + ((jsval \<times> jsval \<times> jsval \<times> jsval) \<times> texture option)" where
  \<comment> \<open>from \<^verbatim>\<open>let texture = undefined\<close> to the end of \<^verbatim>\<open>if (model.geom_matid[g] != -1)\<close>: the
      colour and the texture of geometry \<open>g\<close>; \<open>r\<close> is the next free serial number\<close>
  "geom_appearance m g r =
     (if \<not> js_eq (rdI (geom_matid m) g) (Num (- 1)) then
        (let matId = rdI (geom_matid m) g;
             color = (rd_at (mat_rgba m) (js_add (js_mul matId (Num 4)) (Num 0)),
                      rd_at (mat_rgba m) (js_add (js_mul matId (Num 4)) (Num 1)),
                      rd_at (mat_rgba m) (js_add (js_mul matId (Num 4)) (Num 2)),
                      rd_at (mat_rgba m) (js_add (js_mul matId (Num 4)) (Num 3)));
             texId = rdI_at (mat_texid m) matId
         in if \<not> js_eq texId (Num (- 1)) then
              (case make_texture m texId r of
                 Inl e \<Rightarrow> Inl e
               | Inr t \<Rightarrow> Inr (color, Some t))
            else Inr (color, None))
      else
        Inr ((rd (geom_rgba m) ((g * 4) + 0),
              rd (geom_rgba m) ((g * 4) + 1),
              rd (geom_rgba m) ((g * 4) + 2),
              rd (geom_rgba m) ((g * 4) + 3)), None))"

definition same_texture :: "texture option \<Rightarrow> texture option \<Rightarrow> bool" where
  \<comment> \<open>\<^verbatim>\<open>material.map == texture\<close>: two objects are equal when they are the same object, and
      \<^verbatim>\<open>null\<close> equals \<^verbatim>\<open>undefined\<close>\<close>
  "same_texture a b =
     (case (a, b) of
        (None, None) \<Rightarrow> True
      | (Some s, Some t) \<Rightarrow> tex_ref s = tex_ref t
      | _ \<Rightarrow> False)"

definition material_differs :: "material \<Rightarrow> (jsval \<times> jsval \<times> jsval \<times> jsval) \<Rightarrow> texture option \<Rightarrow> bool" where
  \<comment> \<open>the condition of the \<^verbatim>\<open>if\<close> that guards \<^verbatim>\<open>new THREE.MeshPhysicalMaterial\<close>\<close>
  "material_differs mat c texture =
     (case (color mat, c) of ((r, g, b), (c0, c1, c2, c3)) \<Rightarrow>
        \<not> js_eq r c0 \<or> \<not> js_eq g c1 \<or> \<not> js_eq b c2 \<or> \<not> js_eq (opacity mat) c3
      \<or> \<not> same_texture (map_tex mat) texture)"

text \<open>
  The colour and the opacity of the memoised material are read back by the guard, so what
  the renderer stores there matters (three.js 0.150, the release whose \<^verbatim>\<open>GLTFLoader\<close> the
  repository loads). \<^verbatim>\<open>new THREE.Color(r, g, b)\<close> starts white; when both \<^verbatim>\<open>g\<close> and \<^verbatim>\<open>b\<close> are
  \<^verbatim>\<open>undefined\<close> it takes a number \<^verbatim>\<open>r\<close> for a hexadecimal colour and leaves the white
  for an \<^verbatim>\<open>undefined\<close> \<^verbatim>\<open>r\<close>, and otherwise it stores the three arguments as they are.
  The constructor of a material skips a parameter that is \<^verbatim>\<open>undefined\<close>, so that an
  \<^verbatim>\<open>undefined\<close> opacity leaves the default opacity 1 and an \<^verbatim>\<open>undefined\<close> map leaves no map.
  The four other parameters are never read back: their fields record the argument, and
  \<^verbatim>\<open>undefined\<close> there stands for a parameter that was skipped.
\<close>

definition setHex :: "real \<Rightarrow> jsval \<times> jsval \<times> jsval" where
  \<comment> \<open>\<^verbatim>\<open>Color.setHex\<close>: \<^verbatim>\<open>hex = Math.floor(hex)\<close>, then the channels
      \<^verbatim>\<open>(hex >> 16 & 255) / 255\<close>, \<^verbatim>\<open>(hex >> 8 & 255) / 255\<close> and \<^verbatim>\<open>(hex & 255) / 255\<close>\<close>
  "setHex x =
     (let hex = \<lfloor>x\<rfloor>
      in (Num (real_of_int (hex div 65536 mod 256) / 255),
          Num (real_of_int (hex div 256 mod 256) / 255),
          Num (real_of_int (hex mod 256) / 255)))"

definition new_Color :: "jsval \<Rightarrow> jsval \<Rightarrow> jsval \<Rightarrow> jsval \<times> jsval \<times> jsval" where
  \<comment> \<open>the fields \<^verbatim>\<open>r\<close>, \<^verbatim>\<open>g\<close>, \<^verbatim>\<open>b\<close> of \<^verbatim>\<open>new THREE.Color(r, g, b)\<close>; the bits of a \<^verbatim>\<open>NaN\<close>
      are all 0\<close>
  "new_Color r g b =
     (if g = Undefined \<and> b = Undefined then
        (case r of
           Num x \<Rightarrow> setHex x
         | NaN \<Rightarrow> (Num 0, Num 0, Num 0)
         | Undefined \<Rightarrow> (Num 1, Num 1, Num 1))
      else (r, g, b))"

definition new_material :: "mj_model \<Rightarrow> nat \<Rightarrow> (jsval \<times> jsval \<times> jsval \<times> jsval) \<Rightarrow> texture option \<Rightarrow> nat \<Rightarrow> material" where
  \<comment> \<open>\<^verbatim>\<open>new THREE.MeshPhysicalMaterial({...})\<close> for geometry \<open>g\<close>; \<open>r\<close> is the serial number
      of the new material\<close>
  "new_material m g c texture r =
     (case c of (c0, c1, c2, c3) \<Rightarrow>
        let has_mat = \<not> js_eq (rdI (geom_matid m) g) (Num (- 1));
            matId = rdI (geom_matid m) g
        in \<lparr> mat_ref = r, color = new_Color c0 c1 c2,
             opacity = (if c3 = Undefined then Num 1 else c3), transparent = js_lt c3 (Num 1),
             specularIntensity = (if has_mat then js_mul (rd_at (mat_specular m) matId) (Num (1/2)) else Undefined),
             reflectivity = (if has_mat then rd_at (mat_reflectance m) matId else Undefined),
             roughness = (if has_mat then js_sub (Num 1) (rd_at (mat_shininess m) matId) else Undefined),
             metalness = (if has_mat then Num (1/10) else Undefined),
             map_tex = texture \<rparr>)"

definition resolve_material :: "nat \<Rightarrow> build \<Rightarrow> error + (texture option \<times> build)" where
  \<comment> \<open>from \<^verbatim>\<open>// Set the Material Properties of incoming bodies\<close> to the end of the guarded
      allocation: the texture of the geometry, and the build with its memoised material\<close>
  "resolve_material g st =
     (case geom_appearance (model st) g (next_ref st) of
        Inl e \<Rightarrow> Inl e
      | Inr (c, texture) \<Rightarrow>
          let r1 = (case texture of Some _ \<Rightarrow> next_ref st + 1 | None \<Rightarrow> next_ref st)
          in if material_differs (material st) c texture
             then Inr (texture, st\<lparr> material := new_material (model st) g c texture r1, next_ref := r1 + 1 \<rparr>)
             else Inr (texture, st\<lparr> next_ref := r1 \<rparr>))"

subsection \<open>The loop over the geometries\<close>

definition geom_step :: "nat list \<Rightarrow> nat \<Rightarrow> build \<Rightarrow> error option \<times> build" where
  \<comment> \<open>the body of the loop; when it throws, the result holds the exception and the state
      that the statements before the throw have left. A plane (type 0) becomes a
      \<^verbatim>\<open>Reflector\<close>, which is turned to lie flat and gets no quaternion from the model\<close>
  "geom_step names_array g st0 =
     (if \<not> js_lt (rdN (geom_group (model st0)) g) (Num 3) then (None, st0)
      else
        let b = rdN (geom_bodyid (model st0)) g;
            type = rdN (geom_type (model st0)) g;
            st1 = ensure_body names_array b st0;
            (geometry, st2) = make_geometry g b type st1
        in case resolve_material g st2 of
             Inl e \<Rightarrow> (Some e, st2)
           | Inr (texture, st3) \<Rightarrow>
               let m = model st3;
                   mesh = \<lparr> is_reflector = js_eq type (Num 0),
                            reflector_texture = (if js_eq type (Num 0) then texture else None),
                            mesh_geometry = (if js_eq type (Num 0) then None else Some geometry),
                            mesh_material = (if js_eq type (Num 0) then None else Some (material st3)),
                            castShadow = (g \<noteq> 0),
                            receiveShadow = (\<not> js_eq type (Num 7)),
                            mesh_bodyID = b,
                            mesh_position = getPosition (geom_pos m) g True,
                            mesh_quaternion = (if \<not> js_eq type (Num 0)
                                               then Some (getQuaternion (geom_quat m) g True) else None),
                            mesh_scale = (if js_eq type (Num 4)
                                          then Some (rd (geom_size m) ((g * 3) + 0),
                                                     rd (geom_size m) ((g * 3) + 2),
                                                     rd (geom_size m) ((g * 3) + 1))
                                          else None) \<rparr>
               in (None, st3\<lparr> bodies := (case bodies st3 b of
                                          Some body \<Rightarrow> (bodies st3)(b \<mapsto> add_child body (Mesh mesh))
                                        | None \<Rightarrow> bodies st3) \<rparr>))"

fun geom_loop :: "nat list \<Rightarrow> nat list \<Rightarrow> build \<Rightarrow> error option \<times> build" where
  "geom_loop names_array [] st = (None, st)"
| "geom_loop names_array (g # gs) st =
     (case geom_step names_array g st of
        (Some e, st') \<Rightarrow> (Some e, st')
      | (None, st') \<Rightarrow> geom_loop names_array gs st')"

subsection \<open>Tendon pools, lights and bodies\<close>

definition js_truthy :: "jsval \<Rightarrow> bool" where
  "js_truthy v = (case v of Num r \<Rightarrow> r \<noteq> 0 | _ \<Rightarrow> False)"

definition light_step :: "mj_model \<Rightarrow> nat \<Rightarrow> (jsval \<rightharpoonup> node) \<times> node \<times> light_object list
    \<Rightarrow> (jsval \<rightharpoonup> node) \<times> node \<times> light_object list" where
  \<comment> \<open>the body of the loop over the lights, on \<^verbatim>\<open>bodies\<close>, \<^verbatim>\<open>mujocoRoot\<close> and \<^verbatim>\<open>lights\<close>\<close>
  "light_step m l acc =
     (case acc of (bs, mroot, lights) \<Rightarrow>
        let light = \<lparr> light_is_directional = js_truthy (rdN (light_directional m) l),
                        light_decay = js_mul (rd (light_attenuation m) l) (Num 100) \<rparr>
        in case bs (Num 0) of
             Some body0 \<Rightarrow> (bs(Num 0 \<mapsto> add_child body0 (Light light)), mroot, lights @ [light])
           | None \<Rightarrow> (bs, add_child mroot (Light light), lights @ [light]))"

definition default_light :: light_object where
  \<comment> \<open>\<^verbatim>\<open>new THREE.DirectionalLight()\<close>, with the renderer's default decay\<close>
  "default_light = \<lparr> light_is_directional = True, light_decay = Num 2 \<rparr>"

definition split_names :: "nat list \<Rightarrow> string list" where
  \<comment> \<open>\<^verbatim>\<open>fullString.split("\\0")\<close>\<close>
  "split_names names_array =
     map (map char_of) (fold (\<lambda>c acc. if c = 0 then acc @ [[]] else butlast acc @ [last acc @ [c]])
        names_array [[]])"

definition body_step :: "string list \<Rightarrow> nat \<Rightarrow> (jsval \<rightharpoonup> node) \<times> node \<Rightarrow> (jsval \<rightharpoonup> node) \<times> node" where
  \<comment> \<open>the body of the loop over the bodies; \<^verbatim>\<open>add(undefined)\<close> adds nothing\<close>
  "body_step names_list b acc =
     (case acc of (bs, mroot) \<Rightarrow>
        case (if b = 0 then None else bs (Num 0)) of
          None \<Rightarrow>
            (case bs (Num (real b)) of
               Some _ \<Rightarrow> (bs, add_child mroot (BodyRef (Num (real b))))
             | None \<Rightarrow> (bs, mroot))
        | Some body0 \<Rightarrow>
            (case bs (Num (real b)) of
               Some _ \<Rightarrow> (bs(Num 0 \<mapsto> add_child body0 (BodyRef (Num (real b)))), mroot)
             | None \<Rightarrow>
                 (bs(Num (real b) \<mapsto>
                       Group (if b + 1 < length names_list then Some (names_list ! (b + 1)) else None)
                         (Some (Num (real b))) False [],
                     Num 0 \<mapsto> add_child body0 (BodyRef (Num (real b)))), mroot)))"

fun deref :: "(jsval \<rightharpoonup> node) \<Rightarrow> node \<Rightarrow> node" where
  "deref bs (BodyRef k) = (case bs k of Some n \<Rightarrow> n | None \<Rightarrow> BodyRef k)"
| "deref bs n = n"

fun deref_children :: "(jsval \<rightharpoonup> node) \<Rightarrow> node \<Rightarrow> node" where
  "deref_children bs (Group name bodyID hcm children) = Group name bodyID hcm (map (deref bs) children)"
| "deref_children bs n = n"

definition snapshot :: "(jsval \<rightharpoonup> node) \<Rightarrow> node \<Rightarrow> node" where
  \<comment> \<open>the tree below the root with the body references followed; bodies nest two deep\<close>
  "snapshot bs mroot =
     (case mroot of
        Group name bodyID hcm children \<Rightarrow>
          Group name bodyID hcm (map (\<lambda>c. deref_children bs (deref bs c)) children)
      | n \<Rightarrow> n)"

subsection \<open>loadSceneFromURL\<close>

text \<open>
  The fields of the application object that the loader touches. \<open>scene\<close> is the list of
  children of \<^verbatim>\<open>parent.scene\<close>; \<open>mujocoRoot\<close> is \<^verbatim>\<open>parent.mujocoRoot\<close>, the root of the last
  scene that was built to the end, with its tendon pools.
\<close>

record parent =
  scene :: "node list"
  mujocoRoot :: "(node \<times> tendon_pools) option"
  parent_model :: "mj_model option"
  parent_simulation :: bool

record loaded_scene =
  ls_model :: mj_model
  ls_bodies :: "jsval \<rightharpoonup> node"
  ls_lights :: "light_object list"

definition check_names :: "mj_model \<Rightarrow> error + nat list" where
  \<comment> \<open>\<^verbatim>\<open>if (!model.names || model.names.byteLength === 0) throw new Error(...)\<close>\<close>
  "check_names m =
     (case names m of
        None \<Rightarrow> Inl (Error ''Invalid model.names array'')
      | Some names_array \<Rightarrow>
          if length names_array = 0 then Inl (Error ''Invalid model.names array'')
          else Inr names_array)"

definition new_build :: "mj_model \<Rightarrow> build" where
  \<comment> \<open>the empty dictionaries and the default material\<close>
  "new_build m =
     \<lparr> model = m, bodies = Map.empty, meshes = Map.empty, material = default_material 0, next_ref = 1 \<rparr>"

definition loadSceneFromURL :: "error + mj_model \<Rightarrow> parent \<Rightarrow> loaded_scene option \<times> parent" where
  \<comment> \<open>the first argument is what \<^verbatim>\<open>mujoco.Model.load_from_xml\<close> does, the engine being outside
      the repository: it returns a model or throws. The result \<open>None\<close> is \<^verbatim>\<open>return null\<close> of
      the \<^verbatim>\<open>catch\<close> block. The scene holds the root by reference, so the root that the
      model leaves in the scene is the root as it stands when the function returns\<close>
  "loadSceneFromURL loaded p =
     (let p1 = (if parent_simulation p
                then p\<lparr> parent_model := None, parent_simulation := False \<rparr> else p)
      in case loaded of
           Inl e \<Rightarrow> (None, p1)
         | Inr m \<Rightarrow>
             (let p2 = p1\<lparr> parent_model := Some m, parent_simulation := True \<rparr>
              in case check_names m of
                   Inl e \<Rightarrow> (None, p2)
                 | Inr names_array \<Rightarrow>
                     (let mroot0 = Group (Some ''MuJoCo Root'') None False []
                      in case geom_loop names_array [0 ..< ngeom m] (new_build m) of
                           (Some e, st) \<Rightarrow>
                             (None, p2\<lparr> scene := scene p2 @ [mroot0], parent_model := Some (model st) \<rparr>)
                         | (None, st) \<Rightarrow>
                             (let m' = model st;
                                  mroot1 = add_child (add_child mroot0 Cylinders) Spheres;
                                  (bs1, mroot2, lights) =
                                     fold (light_step m') [0 ..< nlight m'] (bodies st, mroot1, []);
                                  mroot3 = (if nlight m' = 0 then add_child mroot2 (Light default_light)
                                            else mroot2);
                                  (bs2, mroot4) =
                                     fold (body_step (split_names names_array)) [0 ..< nbody m'] (bs1, mroot3)
                              in (Some \<lparr> ls_model = m', ls_bodies = bs2, ls_lights = lights \<rparr>,
                                  p2\<lparr> scene := scene p2 @ [snapshot bs2 mroot4],
                                      mujocoRoot := Some (snapshot bs2 mroot4, new_tendon_pools),
                                      parent_model := Some m' \<rparr>)))))"

section \<open>Names used in the proofs\<close>

definition relax :: "(real \<Rightarrow> real) \<Rightarrow> real \<Rightarrow> real \<Rightarrow> real \<Rightarrow> real" where
  \<comment> \<open>what one iteration of \<^const>\<open>returnToStandingPose_at\<close> does to the value of an
      actuator that the buffer holds (a name for the proofs, not a function of the source)\<close>
  "relax fl dt target current =
     (if \<bar>fl (fl target - current)\<bar> > fl (1/100)
      then fl (current + fl (fl (fl (fl target - current) * (1/2)) * dt))
      else current)"

definition fixed_point :: "real \<Rightarrow> real" where
  \<comment> \<open>a rounding for the proofs: to the nearest multiple of \<open>1 / 2 ^ 70\<close>\<close>
  "fixed_point x = real_of_int \<lfloor>x * 2 ^ 70 + 1/2\<rfloor> / 2 ^ 70"

definition idle_half :: controller where
  \<comment> \<open>a test state: an idle controller whose twelve actuators are all at 1/2\<close>
  "idle_half =
     \<lparr> ctrl = replicate 12 (1/2), time = 0, phase = 0, isMoving = False,
       direction = (0, 0, 0), speed = 1/2 \<rparr>"

definition idle_at_rest :: controller where
  \<comment> \<open>a test state: an idle controller whose twelve actuators are all at 0\<close>
  "idle_at_rest =
     \<lparr> ctrl = replicate 12 0, time = 0, phase = 0, isMoving = False,
       direction = (0, 0, 0), speed = 1/2 \<rparr>"

definition walking :: controller where
  \<comment> \<open>a test state: a fresh controller on a twelve-actuator buffer, told to walk forward\<close>
  "walking = setDirection 1 0 (new_controller (replicate 12 0))"

subsection \<open>Test models\<close>

definition empty_parent :: parent where
  \<comment> \<open>the application before its first scene: the camera and the ambient light are in the
      scene, and the constructor has made a simulation\<close>
  "empty_parent =
     \<lparr> scene = [Other ''PerspectiveCamera'', Other ''AmbientLight''], mujocoRoot = None,
       parent_model = None, parent_simulation = True \<rparr>"

definition ball_model :: mj_model where
  \<comment> \<open>one body named \<open>w\<close> with two spheres that share material 0, which has texture 0 of
      one pixel\<close>
  "ball_model =
     \<lparr> names = Some [119, 0], nbody = 1, name_bodyadr = [0],
       ngeom = 2, geom_group = [0, 0], geom_bodyid = [0, 0], geom_type = [2, 2],
       geom_size = [1, 1, 1, 1, 1, 1], geom_dataid = [- 1, - 1],
       geom_rgba = [1/2, 1/2, 1/2, 1, 1/2, 1/2, 1/2, 1], geom_matid = [0, 0],
       geom_pos = [0, 0, 0, 0, 0, 0], geom_quat = [1, 0, 0, 0, 1, 0, 0, 0],
       mat_rgba = [1, 0, 0, 1], mat_texid = [0],
       mat_specular = [1/2], mat_reflectance = [0], mat_shininess = [1/2],
       tex_width = [1], tex_height = [1], tex_adr = [0], tex_rgb = [255, 0, 0],
       mesh_vert = [], mesh_normal = [], mesh_texcoord = [], mesh_face = [],
       mesh_vertadr = [], mesh_vertnum = [], mesh_texcoordadr = [],
       mesh_faceadr = [], mesh_facenum = [],
       nlight = 0, light_directional = [], light_attenuation = [] \<rparr>"

definition bad_texture_model :: mj_model where
  \<comment> \<open>the same model with a texture of width -1\<close>
  "bad_texture_model = ball_model\<lparr> tex_width := [- 1] \<rparr>"

definition paint_model :: mj_model where
  \<comment> \<open>one body with three spheres that have no material: two opaque red ones and a red
      one of opacity 1/2\<close>
  "paint_model =
     \<lparr> names = Some [119, 0], nbody = 1, name_bodyadr = [0],
       ngeom = 3, geom_group = [0, 0, 0], geom_bodyid = [0, 0, 0], geom_type = [2, 2, 2],
       geom_size = [1, 1, 1, 1, 1, 1, 1, 1, 1], geom_dataid = [- 1, - 1, - 1],
       geom_rgba = [1, 0, 0, 1,  1, 0, 0, 1,  1, 0, 0, 1/2], geom_matid = [- 1, - 1, - 1],
       geom_pos = [0, 0, 0, 0, 0, 0, 0, 0, 0], geom_quat = [1, 0, 0, 0, 1, 0, 0, 0, 1, 0, 0, 0],
       mat_rgba = [], mat_texid = [],
       mat_specular = [], mat_reflectance = [], mat_shininess = [],
       tex_width = [], tex_height = [], tex_adr = [], tex_rgb = [],
       mesh_vert = [], mesh_normal = [], mesh_texcoord = [], mesh_face = [],
       mesh_vertadr = [], mesh_vertnum = [], mesh_texcoordadr = [],
       mesh_faceadr = [], mesh_facenum = [],
       nlight = 0, light_directional = [], light_attenuation = [] \<rparr>"

definition paint1 :: build where
  \<comment> \<open>the build of \<^const>\<open>paint_model\<close> after its first geometry, and after its second\<close>
  "paint1 = snd (geom_step [119, 0] 0 (new_build paint_model))"

definition paint2 :: build where
  "paint2 = snd (geom_step [119, 0] 1 paint1)"

definition paint3 :: build where
  "paint3 = snd (geom_step [119, 0] 2 paint2)"

definition ball1 :: build where
  \<comment> \<open>the build of \<^const>\<open>ball_model\<close> after its first geometry, and after its second\<close>
  "ball1 = snd (geom_step [119, 0] 0 (new_build ball_model))"

definition ball2 :: build where
  "ball2 = snd (geom_step [119, 0] 1 ball1)"

definition mesh_model :: mj_model where
  \<comment> \<open>one body with two geometries that show the same mesh of two vertices\<close>
  "mesh_model =
     \<lparr> names = Some [119, 0], nbody = 1, name_bodyadr = [0],
       ngeom = 2, geom_group = [0, 0], geom_bodyid = [0, 0], geom_type = [7, 7],
       geom_size = [1, 1, 1, 1, 1, 1], geom_dataid = [0, 0],
       geom_rgba = [1, 1, 1, 1, 1, 1, 1, 1], geom_matid = [- 1, - 1],
       geom_pos = [0, 0, 0, 0, 0, 0], geom_quat = [1, 0, 0, 0, 1, 0, 0, 0],
       mat_rgba = [], mat_texid = [],
       mat_specular = [], mat_reflectance = [], mat_shininess = [],
       tex_width = [], tex_height = [], tex_adr = [], tex_rgb = [],
       mesh_vert = [Num 1, Num 2, Num 3, Num 4, Num 5, Num 6],
       mesh_normal = [Num 0, Num 0, Num 1, Num 0, Num 1, Num 0],
       mesh_texcoord = [], mesh_face = [0, 1, 0],
       mesh_vertadr = [0], mesh_vertnum = [2], mesh_texcoordadr = [- 1],
       mesh_faceadr = [0], mesh_facenum = [1],
       nlight = 0, light_directional = [], light_attenuation = [] \<rparr>"

text \<open>The serial numbers in the memoised material are older than the next one to be given
  out: an invariant of the build.\<close>

definition refs_below :: "build \<Rightarrow> bool" where
  "refs_below st \<longleftrightarrow>
     mat_ref (material st) < next_ref st
   \<and> (case map_tex (material st) of Some t \<Rightarrow> tex_ref t < next_ref st | None \<Rightarrow> True)"

text \<open>The model that one synthesis pass over mesh \<open>k\<close> leaves.\<close>

definition mesh_pass :: "nat \<Rightarrow> mj_model \<Rightarrow> mj_model" where
  "mesh_pass k m = snd (new_mesh_geometry (Num (real k)) m)"

section \<open>Properties of the coordinate adapter\<close>

text \<open>
  Claim C2, as stated: the swizzle sends the engine components \<open>(w, x, y, z)\<close> stored at the
  index to \<open>(-x, -w, z, -y)\<close>. On the buffer \<open>[1, 2, 3, 4]\<close> (so \<open>w = 1\<close>, \<open>x = 2\<close>, \<open>y = 3\<close>,
  \<open>z = 4\<close>) the claim gives the four numbers \<open>(-2, -1, 4, -3)\<close>; the code produces a
  quaternion with \<open>x = -2\<close>, \<open>y = -4\<close>, \<open>z = 3\<close>, \<open>w = -1\<close>, which is neither reading of
  them.
\<close>

theorem getQuaternion_differs_from_spec_mapping:
  "getQuaternion [1, 2, 3, 4] 0 True = \<lparr> qx = Num (- 2), qy = Num (- 4), qz = Num 3, qw = Num (- 1) \<rparr>
 \<and> spec_toRenderOrientation [1, 2, 3, 4] 0 = \<lparr> qx = Num (- 2), qy = Num (- 1), qz = Num 4, qw = Num (- 3) \<rparr>
 \<and> spec_toRenderOrientation_wxyz [1, 2, 3, 4] 0 = \<lparr> qx = Num (- 1), qy = Num 4, qz = Num (- 3), qw = Num (- 2) \<rparr>
 \<and> getQuaternion [1, 2, 3, 4] 0 True \<noteq> spec_toRenderOrientation [1, 2, 3, 4] 0
 \<and> getQuaternion [1, 2, 3, 4] 0 True \<noteq> spec_toRenderOrientation_wxyz [1, 2, 3, 4] 0"
  by (simp add: getQuaternion_def spec_toRenderOrientation_def spec_toRenderOrientation_wxyz_def rd_def)

text \<open>
  Claim C2, amended: for every buffer and every index whose four components lie inside
  the buffer, the swizzle sends the engine components \<open>(w, x, y, z)\<close> stored at the index
  to the render quaternion whose \<open>set(x, y, z, w)\<close> arguments are \<open>(-x, -z, y, -w)\<close>; with
  the swizzle disabled the four stored numbers are passed on in their stored order.
\<close>

theorem getQuaternion_components:
  assumes "index * 4 + 3 < length buffer"
  shows "getQuaternion buffer index True =
           \<lparr> qx = Num (- (buffer ! (index * 4 + 1))),
             qy = Num (- (buffer ! (index * 4 + 3))),
             qz = Num (buffer ! (index * 4 + 2)),
             qw = Num (- (buffer ! (index * 4 + 0))) \<rparr>
       \<and> getQuaternion buffer index False =
           \<lparr> qx = Num (buffer ! (index * 4 + 0)),
             qy = Num (buffer ! (index * 4 + 1)),
             qz = Num (buffer ! (index * 4 + 2)),
             qw = Num (buffer ! (index * 4 + 3)) \<rparr>"
  using assms by (simp add: getQuaternion_def rd_def)

theorem getQuaternion_components_witness:
  "(1::nat) * 4 + 3 < length [1, 2, 3, 4, 5, 6, 7, 8 :: real]
 \<and> getQuaternion [1, 2, 3, 4, 5, 6, 7, 8] 1 True =
      \<lparr> qx = Num (- 6), qy = Num (- 8), qz = Num 7, qw = Num (- 5) \<rparr>
 \<and> getQuaternion [1, 2, 3, 4, 5, 6, 7, 8] 1 False =
      \<lparr> qx = Num 5, qy = Num 6, qz = Num 7, qw = Num 8 \<rparr>"
  using getQuaternion_components [of 1 "[1, 2, 3, 4, 5, 6, 7, 8]"] by simp

text \<open>
  Claim C4: for every engine position \<open>p\<close> read from a buffer, the position swizzle
  \<open>(x, y, z) \<mapsto> (x, z, -y)\<close> followed by \<open>(x, y, z) \<mapsto> (x, -z, y)\<close> gives \<open>p\<close> back exactly
  (it is what the unswizzled read returns), and the two mappings are inverse to each other
  in the other order as well: swizzling the engine form of a render position \<open>(x, y, z)\<close>
  gives \<open>(x, y, z)\<close>.
\<close>

theorem position_swizzle_round_trip:
  assumes "index * 3 + 2 < length buffer"
  shows "toMujocoPos (getPosition buffer index True) =
           \<lparr> vx = Num (buffer ! (index * 3 + 0)),
             vy = Num (buffer ! (index * 3 + 1)),
             vz = Num (buffer ! (index * 3 + 2)) \<rparr>
       \<and> toMujocoPos (getPosition buffer index True) = getPosition buffer index False
       \<and> toMujocoPos \<lparr> vx = Num x, vy = Num y, vz = Num z \<rparr> =
           \<lparr> vx = Num x, vy = Num (- z), vz = Num y \<rparr>
       \<and> getPosition [x, - z, y] 0 True = \<lparr> vx = Num x, vy = Num y, vz = Num z \<rparr>"
  using assms by (simp add: toMujocoPos_def getPosition_def rd_def)

theorem position_swizzle_round_trip_witness:
  "(1::nat) * 3 + 2 < length [1, 2, 3, 4, 5, 6 :: real]
 \<and> getPosition [1, 2, 3, 4, 5, 6] 1 True = \<lparr> vx = Num 4, vy = Num 6, vz = Num (- 5) \<rparr>
 \<and> toMujocoPos (getPosition [1, 2, 3, 4, 5, 6] 1 True) = \<lparr> vx = Num 4, vy = Num 5, vz = Num 6 \<rparr>"
  using position_swizzle_round_trip [of 1 "[1, 2, 3, 4, 5, 6]"]
  by (simp add: getPosition_def rd_def)

section \<open>Properties of the tendon synchronisation\<close>

lemma setMatrixAt_length [simp]:
  "length (instanceMatrix (setMatrixAt i m p)) = length (instanceMatrix p)"
  by (simp add: setMatrixAt_def)

lemma tendon_pair_fst:
  "fst (tendon_pair xpos r w (k, mroot)) = k + (if valid_pair xpos w then 1 else 0)"
  by (simp add: tendon_pair_def valid_pair_def Let_def)

lemma tendon_pair_cap:
  "length (instanceMatrix (cylinders (snd (tendon_pair xpos r w (k, mroot))))) = length (instanceMatrix (cylinders mroot))
 \<and> length (instanceMatrix (spheres (snd (tendon_pair xpos r w (k, mroot))))) = length (instanceMatrix (spheres mroot))"
  by (simp add: tendon_pair_def Let_def)

lemma fold_tendon_pair:
  "fst (fold (tendon_pair xpos r) ws acc) = fst acc + length (filter (valid_pair xpos) ws)
 \<and> length (instanceMatrix (cylinders (snd (fold (tendon_pair xpos r) ws acc)))) = length (instanceMatrix (cylinders (snd acc)))
 \<and> length (instanceMatrix (spheres (snd (fold (tendon_pair xpos r) ws acc)))) = length (instanceMatrix (spheres (snd acc)))"
proof (induction ws arbitrary: acc)
  case Nil
  show ?case by simp
next
  case (Cons w ws)
  obtain k mroot where acc: "acc = (k, mroot)" by (cases acc)
  show ?case
    using Cons [of "tendon_pair xpos r w (k, mroot)"] tendon_pair_fst [of xpos r w k mroot]
      tendon_pair_cap [of xpos r w k mroot]
    by (simp add: acc)
qed

lemma fold_tendon_loop:
  "fst (fold (tendon_loop f) ts acc) =
     fst acc + sum_list (map (\<lambda>t. length (filter (valid_pair (wrap_xpos f)) (tendon_wraps f t))) ts)
 \<and> length (instanceMatrix (cylinders (snd (fold (tendon_loop f) ts acc)))) = length (instanceMatrix (cylinders (snd acc)))
 \<and> length (instanceMatrix (spheres (snd (fold (tendon_loop f) ts acc)))) = length (instanceMatrix (spheres (snd acc)))"
proof (induction ts arbitrary: acc)
  case Nil
  show ?case by simp
next
  case (Cons t ts)
  show ?case
    using Cons [of "tendon_loop f t acc"]
      fold_tendon_pair [of "wrap_xpos f" "rd (tendon_width f) t" "tendon_wraps f t" acc]
    by (simp add: tendon_loop_def)
qed

lemma update_tendons_counts:
  "count (cylinders (update_tendons f mroot)) = valid_pairs f"
  "count (spheres (update_tendons f mroot)) = (if valid_pairs f > 0 then valid_pairs f + 1 else 0)"
  "length (instanceMatrix (cylinders (update_tendons f mroot))) = length (instanceMatrix (cylinders mroot))"
  "length (instanceMatrix (spheres (update_tendons f mroot))) = length (instanceMatrix (spheres mroot))"
proof -
  let ?r = "fold (tendon_loop f) [0..<ntendon f] (0, mroot)"
  have n: "fst ?r = valid_pairs f"
    using fold_tendon_loop [of f "[0..<ntendon f]" "(0, mroot)"] by (simp add: valid_pairs_def)
  have c: "length (instanceMatrix (cylinders (snd ?r))) = length (instanceMatrix (cylinders mroot))"
    "length (instanceMatrix (spheres (snd ?r))) = length (instanceMatrix (spheres mroot))"
    using fold_tendon_loop [of f "[0..<ntendon f]" "(0, mroot)"] by simp_all
  show "count (cylinders (update_tendons f mroot)) = valid_pairs f"
    by (simp add: update_tendons_def case_prod_beta n)
  show "count (spheres (update_tendons f mroot)) = (if valid_pairs f > 0 then valid_pairs f + 1 else 0)"
    by (simp add: update_tendons_def case_prod_beta n)
  show "length (instanceMatrix (cylinders (update_tendons f mroot))) = length (instanceMatrix (cylinders mroot))"
    by (simp add: update_tendons_def case_prod_beta c)
  show "length (instanceMatrix (spheres (update_tendons f mroot))) = length (instanceMatrix (spheres mroot))"
    by (simp add: update_tendons_def case_prod_beta c)
qed

lemma js_gt_vlength:
  "js_gt (vlength \<lparr> vx = Num x, vy = Num y, vz = Num z \<rparr>) (1/100) \<longleftrightarrow> x * x + y * y + z * z > 1/10000"
proof -
  have a: "sqrt (1/10000) = (1/100::real)"
    by (rule real_sqrt_unique) (simp_all add: power2_eq_square)
  have b: "(1/100 < sqrt s) = (1/10000 < s)" for s :: real
    using real_sqrt_less_iff [of "1/10000" s] unfolding a .
  show ?thesis
    unfolding js_gt_def vlength_def by (simp only: vec3.simps jsval.case prod.case b)
qed

lemma valid_ones:
  assumes "w * 3 + 2 < n"
  shows "js_gt (vlength (getPosition (replicate n 1) w True)) (1/100)"
proof -
  have "getPosition (replicate n 1) w True = \<lparr> vx = Num 1, vy = Num 1, vz = Num (- 1) \<rparr>"
    using assms by (simp add: getPosition_def rd_def)
  then show ?thesis by (simp only: js_gt_vlength)
qed





lemma valid_pairs_long_tendon: "valid_pairs (long_tendon n) = n - 1"
proof -
  have "valid_pair (replicate (3 * n) 1) w" if "w \<in> set [0..<n - 1]" for w
    using that by (auto simp: valid_pair_def intro!: valid_ones)
  then have "\<forall>w\<in>set [0..<n - 1]. valid_pair (replicate (3 * n) 1) w" ..
  then have "filter (valid_pair (replicate (3 * n) 1)) [0..<n - 1] = [0..<n - 1]"
    by (rule filter_True)
  then show ?thesis
    by (simp add: valid_pairs_def long_tendon_def tendon_wraps_def rd_nat_def)
qed



text \<open>
  Claim C1, as stated: the counts given to the two pools are clamped to the capacity of
  1023. With one tendon of 1024 valid wrap points the sphere pool, whose capacity is 1023,
  is given the count 1024; with 1025 wrap points the capsule pool is given 1024 as well.
\<close>

theorem tendon_counts_not_clamped:
  "length (instanceMatrix (spheres new_tendon_pools)) = 1023
 \<and> count (cylinders (update_tendons (long_tendon 1024) new_tendon_pools)) = 1023
 \<and> count (spheres (update_tendons (long_tendon 1024) new_tendon_pools)) = 1024
 \<and> count (cylinders (update_tendons (long_tendon 1025) new_tendon_pools)) = 1024"
  by (simp add: update_tendons_counts valid_pairs_long_tendon new_tendon_pools_def new_InstancedMesh_def)

text \<open>
  Claim C1, amended: for every tendon-sync frame, whatever the number of wrap points, the
  count given to the capsule pool is the number of wrap-point pairs with two valid end
  points and the count given to the sphere pool is that number plus one (zero when there
  is no such pair); neither is clamped. The capacity of the pools never changes: a matrix
  written at an index at or beyond the capacity is dropped. The synchronisation has no
  failing branch, and it does nothing when no scene root is set.
\<close>

theorem tendon_counts_unclamped:
  "count (cylinders (update_tendons f mroot)) = valid_pairs f
 \<and> count (spheres (update_tendons f mroot)) = (if valid_pairs f > 0 then valid_pairs f + 1 else 0)
 \<and> length (instanceMatrix (cylinders (update_tendons f mroot))) = length (instanceMatrix (cylinders mroot))
 \<and> length (instanceMatrix (spheres (update_tendons f mroot))) = length (instanceMatrix (spheres mroot))
 \<and> (length (instanceMatrix p) \<le> i \<longrightarrow> setMatrixAt i m p = p)
 \<and> render_tendons f (Some mroot) = Some (update_tendons f mroot)
 \<and> render_tendons f None = None"
  by (simp add: update_tendons_counts setMatrixAt_def render_tendons_def)

theorem tendon_counts_unclamped_witness:
  "length (instanceMatrix (new_InstancedMesh 1023)) \<le> 1023
 \<and> setMatrixAt 1023 (Sphere_compose \<lparr> vx = Num 1, vy = Num 1, vz = Num (- 1) \<rparr> (Num (1/100)))
       (new_InstancedMesh 1023) = new_InstancedMesh 1023
 \<and> count (cylinders (update_tendons (long_tendon 2000) new_tendon_pools)) = 1999
 \<and> count (spheres (update_tendons (long_tendon 2000) new_tendon_pools)) = 2000
 \<and> length (instanceMatrix (cylinders (update_tendons (long_tendon 2000) new_tendon_pools))) = 1023
 \<and> length (instanceMatrix (spheres (update_tendons (long_tendon 2000) new_tendon_pools))) = 1023"
proof -
  have l: "length (instanceMatrix (new_InstancedMesh 1023)) \<le> 1023"
    by (simp add: new_InstancedMesh_def)
  show ?thesis
    using l tendon_counts_unclamped [of "long_tendon 2000" new_tendon_pools "new_InstancedMesh 1023" 1023
        "Sphere_compose \<lparr> vx = Num 1, vy = Num 1, vz = Num (- 1) \<rparr> (Num (1/100))"]
    by (simp add: valid_pairs_long_tendon new_tendon_pools_def new_InstancedMesh_def)
qed



section \<open>Properties of the gait controller\<close>

lemma NUM_MOTORS_12: "NUM_MOTORS = 12"
  by (simp add: NUM_MOTORS_def NUM_LEGS_def JOINTS_PER_LEG_def)

lemma length_DEFAULT_POSE: "length DEFAULT_POSE = 12"
  by (simp add: DEFAULT_POSE_def)

subsection \<open>Fields that the pose writers leave alone\<close>

lemma calculateLegJointPositions_fields [simp]:
  "time (calculateLegJointPositions l p s) = time s"
  "phase (calculateLegJointPositions l p s) = phase s"
  "isMoving (calculateLegJointPositions l p s) = isMoving s"
  by (simp_all add: calculateLegJointPositions_def Let_def split: prod.splits)

lemma fold_calculateLegJointPositions_fields:
  "time (fold (\<lambda>leg. calculateLegJointPositions leg (f leg)) ls s) = time s
 \<and> phase (fold (\<lambda>leg. calculateLegJointPositions leg (f leg)) ls s) = phase s
 \<and> isMoving (fold (\<lambda>leg. calculateLegJointPositions leg (f leg)) ls s) = isMoving s"
  by (induction ls arbitrary: s) simp_all

lemma applyTrottingGait_fields:
  "time (applyTrottingGait s) = time s"
  "phase (applyTrottingGait s) = phase s"
  "isMoving (applyTrottingGait s) = isMoving s"
  using fold_calculateLegJointPositions_fields [of "\<lambda>leg. legPhases (phase s) ! leg" "[0..<NUM_LEGS]" s]
  by (simp_all add: applyTrottingGait_def)

lemma reset_fields:
  "time (reset s) = time s" "phase (reset s) = phase s" "isMoving (reset s) = isMoving s"
  by (simp_all add: reset_def)

lemma walking_fields: "isMoving walking" "time walking = 0"
  by (simp_all add: walking_def setDirection_def new_controller_def reset_def)

subsection \<open>reset\<close>

lemma reset_fold_length:
  "length (fold (\<lambda>i c. c[i := D ! i]) [0..<n] c) = length c"
  by (induction n) simp_all

lemma reset_fold_nth:
  "i < length c \<Longrightarrow>
   fold (\<lambda>i c. c[i := D ! i]) [0..<n] c ! i = (if i < n then D ! i else c ! i)"
  by (induction n) (auto simp: reset_fold_length nth_list_update less_Suc_eq)

text \<open>
  Claim C6, as stated: \<open>reset()\<close> also zeroes the gait phase and the elapsed time. After
  one second of walking the elapsed time is 1 and the phase is 2/3, and \<open>reset()\<close> leaves
  both where they are.
\<close>

theorem reset_keeps_time_and_phase:
  "time (reset (update 1 walking)) = 1 \<and> phase (reset (update 1 walking)) = 2/3"
  by (simp add: reset_fields update_def update_fl_def Let_def walking_fields applyTrottingGait_fields
      TROT_CYCLE_DURATION_def js_rem_def)

text \<open>
  Claim C6, amended: for every controller state whose command buffer has at least twelve
  entries, \<open>reset()\<close> sets the first twelve entries (4 legs x 3 joints) to the fixed
  default standing pose and changes nothing else: the rest of the buffer, the elapsed
  time, the gait phase, the moving flag, the direction and the speed are as before.
\<close>

theorem reset_pose_only:
  assumes "NUM_MOTORS \<le> length (ctrl s)"
  shows "take NUM_MOTORS (ctrl (reset s)) = DEFAULT_POSE
       \<and> drop NUM_MOTORS (ctrl (reset s)) = drop NUM_MOTORS (ctrl s)
       \<and> time (reset s) = time s \<and> phase (reset s) = phase s
       \<and> isMoving (reset s) = isMoving s \<and> direction (reset s) = direction s
       \<and> speed (reset s) = speed s"
proof -
  let ?c = "fold (\<lambda>i c. c[i := DEFAULT_POSE ! i]) [0..<NUM_MOTORS] (ctrl s)"
  have "take NUM_MOTORS ?c = DEFAULT_POSE"
    using assms
    by (intro nth_equalityI)
       (simp_all add: reset_fold_length length_DEFAULT_POSE NUM_MOTORS_12 reset_fold_nth)
  moreover have "drop NUM_MOTORS ?c = drop NUM_MOTORS (ctrl s)"
    using assms by (intro nth_equalityI) (simp_all add: reset_fold_length reset_fold_nth)
  ultimately show ?thesis by (simp add: reset_def)
qed

theorem reset_pose_only_witness:
  "NUM_MOTORS \<le> length (ctrl (idle_at_rest\<lparr> ctrl := replicate 13 7, time := 5 \<rparr>))
 \<and> ctrl (reset (idle_at_rest\<lparr> ctrl := replicate 13 7, time := 5 \<rparr>)) = DEFAULT_POSE @ [7]
 \<and> time (reset (idle_at_rest\<lparr> ctrl := replicate 13 7, time := 5 \<rparr>)) = 5"
proof -
  let ?s = "idle_at_rest\<lparr> ctrl := replicate 13 7, time := 5 \<rparr>"
  have h: "NUM_MOTORS \<le> length (ctrl ?s)" by (simp add: NUM_MOTORS_12)
  have "length (ctrl (reset ?s)) = 13" by (simp add: reset_def reset_fold_length)
  then have "ctrl (reset ?s) = take NUM_MOTORS (ctrl (reset ?s)) @ drop NUM_MOTORS (ctrl (reset ?s))"
    by simp
  also have "\<dots> = DEFAULT_POSE @ [7]"
    using reset_pose_only [OF h] by (simp add: NUM_MOTORS_12 numeral_eq_Suc)
  finally show ?thesis using h reset_pose_only [OF h] by (simp add: idle_at_rest_def)
qed

subsection \<open>The trot schedule\<close>

lemma legPhases_eq:
  "legPhases p = (if p < 1/2 then [p * 2, 0, 0, p * 2] else [0, (p - 1/2) * 2, (p - 1/2) * 2, 0])"
  by (simp add: legPhases_def TROT_PAIRS_def FL_def FR_def RL_def RR_def)

text \<open>
  Claim C5: for every elapsed time, with the controller in the moving state, the gait
  phase that \<open>update\<close> stores is \<open>(t mod 0.6) / 0.6\<close> at the new elapsed time \<open>t\<close> (\<open>mod\<close> being
  the remainder operator of the language), and the joint targets are computed from the
  leg phases of that phase. When the phase is below 0.5 the diagonal pair (FL, RR) is in
  stance with leg phase 0 while (FR, RL) swings with leg phase \<open>2 * phase\<close>; from 0.5 on
  the roles are swapped, the swinging pair running at \<open>2 * (phase - 0.5)\<close>; and at
  \<open>t = 0.6\<close> the phase is 0 again.
\<close>

theorem trot_phase_schedule:
  assumes "isMoving s"
  shows "phase (update dt s) = js_rem (time s + dt) TROT_CYCLE_DURATION / TROT_CYCLE_DURATION
       \<and> ctrl (update dt s) =
           ctrl (fold (\<lambda>leg. calculateLegJointPositions leg (legPhases (phase (update dt s)) ! leg))
                   [0..<NUM_LEGS] (s\<lparr> time := time s + dt, phase := phase (update dt s) \<rparr>))
       \<and> (phase (update dt s) < 1/2 \<longrightarrow>
            legPhases (phase (update dt s)) ! FL = 0 \<and> legPhases (phase (update dt s)) ! RR = 0
          \<and> legPhases (phase (update dt s)) ! FR = 2 * phase (update dt s)
          \<and> legPhases (phase (update dt s)) ! RL = 2 * phase (update dt s))
       \<and> (phase (update dt s) \<ge> 1/2 \<longrightarrow>
            legPhases (phase (update dt s)) ! FR = 0 \<and> legPhases (phase (update dt s)) ! RL = 0
          \<and> legPhases (phase (update dt s)) ! FL = 2 * (phase (update dt s) - 1/2)
          \<and> legPhases (phase (update dt s)) ! RR = 2 * (phase (update dt s) - 1/2))
       \<and> (time s + dt = TROT_CYCLE_DURATION \<longrightarrow> phase (update dt s) = 0)"
proof -
  have p: "phase (update dt s) = js_rem (time s + dt) TROT_CYCLE_DURATION / TROT_CYCLE_DURATION"
    using assms by (simp add: update_def update_fl_def Let_def applyTrottingGait_fields)
  have c: "ctrl (update dt s) =
           ctrl (fold (\<lambda>leg. calculateLegJointPositions leg (legPhases (phase (update dt s)) ! leg))
                   [0..<NUM_LEGS] (s\<lparr> time := time s + dt, phase := phase (update dt s) \<rparr>))"
    unfolding p using assms by (simp add: update_def update_fl_def Let_def applyTrottingGait_def)
  have w: "time s + dt = TROT_CYCLE_DURATION \<longrightarrow> phase (update dt s) = 0"
    unfolding p by (simp add: js_rem_def TROT_CYCLE_DURATION_def)
  show ?thesis
    using p c w by (simp add: legPhases_eq FL_def FR_def RL_def RR_def)
qed

theorem trot_phase_schedule_witness:
  "isMoving walking
 \<and> phase (update (6/10) walking) = 0
 \<and> phase (update (15/100) walking) = 1/4
 \<and> legPhases (1/4) ! FL = 0 \<and> legPhases (1/4) ! RR = 0
 \<and> legPhases (1/4) ! FR = 1/2 \<and> legPhases (1/4) ! RL = 1/2
 \<and> phase (update (45/100) walking) = 3/4
 \<and> legPhases (3/4) ! FL = 1/2 \<and> legPhases (3/4) ! RR = 1/2
 \<and> legPhases (3/4) ! FR = 0 \<and> legPhases (3/4) ! RL = 0"
proof -
  have a: "phase (update (6/10) walking) = 0"
    using trot_phase_schedule [OF walking_fields(1), of "6/10"]
    by (simp add: walking_fields TROT_CYCLE_DURATION_def)
  have b: "phase (update (15/100) walking) = 1/4"
    using trot_phase_schedule [OF walking_fields(1), of "15/100"]
    by (simp add: walking_fields TROT_CYCLE_DURATION_def js_rem_def)
  have c: "phase (update (45/100) walking) = 3/4"
    using trot_phase_schedule [OF walking_fields(1), of "45/100"]
    by (simp add: walking_fields TROT_CYCLE_DURATION_def js_rem_def)
  have d: "legPhases (1/4) ! FL = 0 \<and> legPhases (1/4) ! RR = 0
         \<and> legPhases (1/4) ! FR = 1/2 \<and> legPhases (1/4) ! RL = 1/2"
    using trot_phase_schedule [OF walking_fields(1), of "15/100"] unfolding b by simp
  have e: "legPhases (3/4) ! FL = 1/2 \<and> legPhases (3/4) ! RR = 1/2
         \<and> legPhases (3/4) ! FR = 0 \<and> legPhases (3/4) ! RL = 0"
    using trot_phase_schedule [OF walking_fields(1), of "45/100"] unfolding c by simp
  show ?thesis using walking_fields(1) a b c d e by simp
qed

subsection \<open>Returning to the standing pose\<close>

lemma returnToStandingPose_at_length [simp]:
  "length (returnToStandingPose_at fl dt i c) = length c"
  by (simp add: returnToStandingPose_at_def Let_def)

lemma returnToStandingPose_at_nth:
  "j < length c \<Longrightarrow>
   returnToStandingPose_at fl dt i c ! j =
     (if j = i then relax fl dt (DEFAULT_POSE ! i) (c ! i) else c ! j)"
  by (simp add: returnToStandingPose_at_def Let_def relax_def nth_list_update)

lemma returnToStandingPose_fold_length [simp]:
  "length (fold (returnToStandingPose_at fl dt) [0..<n] c) = length c"
  by (induction n) simp_all

lemma returnToStandingPose_fold_nth:
  "j < length c \<Longrightarrow>
   fold (returnToStandingPose_at fl dt) [0..<n] c ! j =
     (if j < n then relax fl dt (DEFAULT_POSE ! j) (c ! j) else c ! j)"
  by (induction n) (auto simp: returnToStandingPose_at_nth less_Suc_eq)

lemma update_idle:
  assumes "\<not> isMoving s"
  shows "\<not> isMoving (update_fl fl dt s)"
    and "length (ctrl (update_fl fl dt s)) = length (ctrl s)"
    and "j < length (ctrl s) \<Longrightarrow> ctrl (update_fl fl dt s) ! j =
           (if j < NUM_MOTORS then relax fl dt (DEFAULT_POSE ! j) (ctrl s ! j) else ctrl s ! j)"
  using assms
  by (simp_all add: update_fl_def Let_def returnToStandingPose_def returnToStandingPose_fold_nth)

lemma update_idle_funpow:
  assumes "\<not> isMoving s"
  shows "\<not> isMoving ((update_fl fl dt ^^ n) s)
       \<and> length (ctrl ((update_fl fl dt ^^ n) s)) = length (ctrl s)
       \<and> (\<forall>j. j < length (ctrl s) \<longrightarrow> j < NUM_MOTORS \<longrightarrow>
             ctrl ((update_fl fl dt ^^ n) s) ! j = (relax fl dt (DEFAULT_POSE ! j) ^^ n) (ctrl s ! j))"
proof (induction n)
  case 0
  show ?case using assms by simp
next
  case (Suc n)
  then show ?case by (simp add: update_idle)
qed

lemma DEFAULT_POSE_bound: "i < NUM_MOTORS \<Longrightarrow> \<bar>DEFAULT_POSE ! i\<bar> \<le> 2"
proof -
  assume "i < NUM_MOTORS"
  then have "DEFAULT_POSE ! i \<in> set DEFAULT_POSE"
    by (simp add: NUM_MOTORS_12 length_DEFAULT_POSE)
  moreover have "\<forall>x\<in>set DEFAULT_POSE. \<bar>x\<bar> \<le> 2" by (simp add: DEFAULT_POSE_def)
  ultimately show ?thesis by blast
qed

subsubsection \<open>What the proofs use of the rounding\<close>

lemma rounding_mono: "rounding fl \<Longrightarrow> x \<le> y \<Longrightarrow> fl x \<le> fl y"
  by (simp add: rounding_def)

lemma rounding_idem: "rounding fl \<Longrightarrow> fl (fl x) = fl x"
  by (simp add: rounding_def)

lemma rounding_zero: "rounding fl \<Longrightarrow> fl 0 = 0"
  by (simp add: rounding_def)

lemma rounding_error_le:
  assumes "rounding fl" "\<bar>x\<bar> \<le> b" "1/1000 \<le> b" "b \<le> 1000000"
  shows "\<bar>fl x - x\<bar> \<le> b / 1000000000000000"
proof -
  have "\<bar>fl x - x\<bar> \<le> max \<bar>x\<bar> (1/1000) / 2 ^ 53"
    using assms by (simp add: rounding_def)
  also have "\<dots> \<le> b / 2 ^ 53"
    using assms by (intro divide_right_mono) simp_all
  also have "\<dots> \<le> b / 1000000000000000"
    using assms by (intro divide_left_mono) simp_all
  finally show ?thesis .
qed

lemma rounding_error_rel:
  assumes "rounding fl" "1/1000 \<le> \<bar>x\<bar>" "\<bar>x\<bar> \<le> 1000000"
  shows "\<bar>fl x - x\<bar> \<le> \<bar>x\<bar> / 1000000000000000"
  using rounding_error_le [OF assms(1) order_refl assms(2,3)] .

lemma rounding_threshold:
  assumes "rounding fl"
  shows "99/10000 \<le> fl (1/100)" and "fl (1/100) \<le> 1/100 + 1/100000000000000000"
proof -
  have "\<bar>fl (1/100) - 1/100\<bar> \<le> \<bar>1/100::real\<bar> / 1000000000000000"
    by (rule rounding_error_rel [OF assms]) simp_all
  then show "99/10000 \<le> fl (1/100)" and "fl (1/100) \<le> 1/100 + 1/100000000000000000"
    by linarith+
qed

lemma rounding_target:
  assumes "rounding fl" "\<bar>t\<bar> \<le> 2"
  shows "\<bar>fl t - t\<bar> \<le> 2 / 1000000000000000" and "\<bar>fl t\<bar> \<le> 3"
proof -
  show a: "\<bar>fl t - t\<bar> \<le> 2 / 1000000000000000"
    using rounding_error_le [OF assms(1,2)] by simp
  show "\<bar>fl t\<bar> \<le> 3" using a assms(2) by linarith
qed

text \<open>An actuator that the loop moves is more than 1/1000 away from its rounded default,
  so the relative error bound applies to the difference and to its half.\<close>

lemma moving_difference:
  assumes R: "rounding fl" and xb: "\<bar>x\<bar> \<le> 1000000" and mv: "\<bar>fl x\<bar> > fl (1/100)"
  shows "1/1000 \<le> \<bar>x\<bar>" and "\<bar>fl x - x\<bar> \<le> \<bar>x\<bar> / 1000000000000000"
proof -
  show a: "1/1000 \<le> \<bar>x\<bar>"
  proof (rule ccontr)
    assume "\<not> 1/1000 \<le> \<bar>x\<bar>"
    then have s: "\<bar>x\<bar> \<le> 1/1000" by simp
    have "\<bar>fl x - x\<bar> \<le> (1/1000) / 1000000000000000"
      using rounding_error_le [OF R s] by simp
    with s have "\<bar>fl x\<bar> \<le> 2/1000" by linarith
    with rounding_threshold(1) [OF R] mv show False by linarith
  qed
  show "\<bar>fl x - x\<bar> \<le> \<bar>x\<bar> / 1000000000000000"
    using rounding_error_rel [OF R a xb] .
qed

text \<open>One iteration on an actuator that is moved: the new value lies between the old value
  and the rounded default, and for a time step of at least 1/1000000 it is at least 1/1000000000
  nearer to it.\<close>

lemma relax_moved:
  assumes R: "rounding fl" and dt: "0 < dt" "dt \<le> 1"
    and rep: "fl c = c" and cb: "\<bar>c\<bar> \<le> 100000"
    and Tr: "fl T = T" and Tb: "\<bar>T\<bar> \<le> 3"
    and mv: "\<bar>fl (T - c)\<bar> > fl (1/100)"
  defines "r \<equiv> fl (c + fl (fl (fl (T - c) * (1/2)) * dt))"
  shows "(c \<le> r \<and> r \<le> T \<and> (1/1000000 \<le> dt \<longrightarrow> c + 1/1000000000 \<le> r))
       \<or> (T \<le> r \<and> r \<le> c \<and> (1/1000000 \<le> dt \<longrightarrow> r \<le> c - 1/1000000000))"
proof -
  define x where "x = T - c"
  define d where "d = fl x"
  define h where "h = fl (d * (1/2))"
  define p where "p = h * dt"
  define inc where "inc = fl p"
  define S where "S = c + inc"
  have r: "r = fl S"
    by (simp add: r_def S_def inc_def p_def h_def d_def x_def)
  have xb: "\<bar>x\<bar> \<le> 100003" using cb Tb unfolding x_def by linarith
  then have xb': "\<bar>x\<bar> \<le> 1000000" by linarith
  have mv': "\<bar>fl x\<bar> > fl (1/100)" using mv by (simp add: x_def)
  have x1: "1/1000 \<le> \<bar>x\<bar>" by (rule moving_difference(1) [OF R xb' mv'])
  have dx: "\<bar>d - x\<bar> \<le> \<bar>x\<bar> / 1000000000000000"
    unfolding d_def by (rule moving_difference(2) [OF R xb' mv'])
  have dbig: "99/10000 < \<bar>d\<bar>"
    using mv' rounding_threshold(1) [OF R] unfolding d_def by linarith
  have dsmall: "\<bar>d\<bar> \<le> 200000" using dx xb by linarith
  have hd: "\<bar>h - d * (1/2)\<bar> \<le> \<bar>d * (1/2)\<bar> / 1000000000000000"
    unfolding h_def
  proof (rule rounding_error_rel [OF R])
    show "1/1000 \<le> \<bar>d * (1/2)\<bar>" using dbig by (simp add: abs_mult)
    show "\<bar>d * (1/2)\<bar> \<le> 1000000" using dsmall by (simp add: abs_mult)
  qed
  have hr: "fl h = h" unfolding h_def by (rule rounding_idem [OF R])
  have f0: "fl 0 = 0" by (rule rounding_zero [OF R])
  show ?thesis
  proof (cases "0 < x")
    case True
    have d0: "99/10000 < d" using dx dbig True by linarith
    have h_lo: "4/1000 \<le> h" using hd d0 by linarith
    have h_hi: "h \<le> x" using hd dx d0 True by linarith
    have p0: "0 \<le> p" unfolding p_def using h_lo dt by simp
    have ph: "p \<le> h"
    proof -
      have "h * dt \<le> h * 1" using h_lo dt by (intro mult_left_mono) simp_all
      then show ?thesis by (simp add: p_def)
    qed
    have i0: "0 \<le> inc" using rounding_mono [OF R p0] unfolding inc_def f0 .
    have ih: "inc \<le> h" using rounding_mono [OF R ph] unfolding inc_def hr .
    have S1: "c \<le> S" using i0 by (simp add: S_def)
    have S2: "S \<le> T" using ih h_hi by (simp add: S_def x_def)
    have r1: "c \<le> r" using rounding_mono [OF R S1] unfolding r rep .
    have r2: "r \<le> T" using rounding_mono [OF R S2] unfolding r Tr .
    have r3: "c + 1/1000000000 \<le> r" if small: "1/1000000 \<le> dt"
    proof -
      have "(4/1000) * (1/1000000) \<le> h * dt"
        using h_lo small by (intro mult_mono) simp_all
      then have p_lo: "4/1000000000 \<le> p" by (simp add: p_def)
      have pb: "\<bar>p\<bar> \<le> 100003" using p0 ph h_hi xb by linarith
      have e1: "\<bar>inc - p\<bar> \<le> 100003 / 1000000000000000"
        unfolding inc_def by (rule rounding_error_le [OF R pb]) simp_all
      have Sb: "\<bar>S\<bar> \<le> 100000" using S1 S2 cb Tb by linarith
      have e2: "\<bar>r - S\<bar> \<le> 100000 / 1000000000000000"
        unfolding r by (rule rounding_error_le [OF R Sb]) simp_all
      show ?thesis using p_lo e1 e2 unfolding S_def by linarith
    qed
    show ?thesis using r1 r2 r3 by blast
  next
    case False
    then have xn: "x < 0" using x1 by linarith
    have d0: "d < - (99/10000)" using dx dbig xn by linarith
    have h_lo: "h \<le> - (4/1000)" using hd d0 by linarith
    have h_hi: "x \<le> h" using hd dx d0 xn by linarith
    have p0: "p \<le> 0" unfolding p_def using h_lo dt by (simp add: mult_nonpos_nonneg)
    have ph: "h \<le> p"
    proof -
      have "(- h) * dt \<le> (- h) * 1" using h_lo dt by (intro mult_left_mono) simp_all
      then show ?thesis by (simp add: p_def)
    qed
    have i0: "inc \<le> 0" using rounding_mono [OF R p0] unfolding inc_def f0 .
    have ih: "h \<le> inc" using rounding_mono [OF R ph] unfolding inc_def hr .
    have S1: "S \<le> c" using i0 by (simp add: S_def)
    have S2: "T \<le> S" using ih h_hi by (simp add: S_def x_def)
    have r1: "r \<le> c" using rounding_mono [OF R S1] unfolding r rep .
    have r2: "T \<le> r" using rounding_mono [OF R S2] unfolding r Tr .
    have r3: "r \<le> c - 1/1000000000" if small: "1/1000000 \<le> dt"
    proof -
      have "(4/1000) * (1/1000000) \<le> (- h) * dt"
        using h_lo small by (intro mult_mono) simp_all
      then have p_lo: "p \<le> - (4/1000000000)" by (simp add: p_def)
      have pb: "\<bar>p\<bar> \<le> 100003" using p0 ph h_hi xb by linarith
      have e1: "\<bar>inc - p\<bar> \<le> 100003 / 1000000000000000"
        unfolding inc_def by (rule rounding_error_le [OF R pb]) simp_all
      have Sb: "\<bar>S\<bar> \<le> 100000" using S1 S2 cb Tb by linarith
      have e2: "\<bar>r - S\<bar> \<le> 100000 / 1000000000000000"
        unfolding r by (rule rounding_error_le [OF R Sb]) simp_all
      show ?thesis using p_lo e1 e2 unfolding S_def by linarith
    qed
    show ?thesis using r1 r2 r3 by blast
  qed
qed

lemma relax_between:
  assumes R: "rounding fl" and dt: "0 < dt" "dt \<le> 1"
    and rep: "fl c = c" and cb: "\<bar>c\<bar> \<le> 100000" and tb: "\<bar>t\<bar> \<le> 2"
  shows "(c \<le> relax fl dt t c \<and> relax fl dt t c \<le> fl t)
       \<or> (fl t \<le> relax fl dt t c \<and> relax fl dt t c \<le> c)"
proof (cases "\<bar>fl (fl t - c)\<bar> > fl (1/100)")
  case True
  show ?thesis
    using relax_moved [OF R dt rep cb rounding_idem [OF R] rounding_target(2) [OF R tb] True] True
    by (auto simp: relax_def)
next
  case False
  then show ?thesis by (auto simp: relax_def)
qed

lemma relax_progress:
  assumes R: "rounding fl" and dt: "1/1000000 \<le> dt" "dt \<le> 1"
    and rep: "fl c = c" and cb: "\<bar>c\<bar> \<le> 100000" and tb: "\<bar>t\<bar> \<le> 2"
    and mv: "\<bar>fl (fl t - c)\<bar> > fl (1/100)"
  shows "\<bar>fl t - relax fl dt t c\<bar> \<le> \<bar>fl t - c\<bar> - 1/1000000000"
proof -
  have pos: "0 < dt" using dt(1) by linarith
  have r: "relax fl dt t c = fl (c + fl (fl (fl (fl t - c) * (1/2)) * dt))"
    using mv by (simp add: relax_def)
  show ?thesis
    using relax_moved [OF R pos dt(2) rep cb rounding_idem [OF R] rounding_target(2) [OF R tb] mv]
      dt(1)
    unfolding r by linarith
qed

lemma relax_inv:
  assumes R: "rounding fl" and dt: "0 < dt" "dt \<le> 1"
    and rep: "fl c = c" and cb: "\<bar>c\<bar> \<le> 100000" and tb: "\<bar>t\<bar> \<le> 2"
  shows "fl (relax fl dt t c) = relax fl dt t c" and "\<bar>relax fl dt t c\<bar> \<le> 100000"
proof -
  show "fl (relax fl dt t c) = relax fl dt t c"
    using rep by (simp add: relax_def rounding_idem [OF R])
  show "\<bar>relax fl dt t c\<bar> \<le> 100000"
    using relax_between [OF assms] cb rounding_target(2) [OF R tb] by linarith
qed

lemma relax_funpow_inv:
  assumes R: "rounding fl" and dt: "0 < dt" "dt \<le> 1"
    and rep: "fl c = c" and cb: "\<bar>c\<bar> \<le> 100000" and tb: "\<bar>t\<bar> \<le> 2"
  shows "fl ((relax fl dt t ^^ n) c) = (relax fl dt t ^^ n) c \<and> \<bar>(relax fl dt t ^^ n) c\<bar> \<le> 100000"
proof (induction n)
  case 0
  show ?case using rep cb by simp
next
  case (Suc n)
  then show ?case using relax_inv [OF R dt _ _ tb] by simp
qed

lemma relax_fixed:
  "\<bar>fl (fl t - y)\<bar> \<le> fl (1/100) \<Longrightarrow> relax fl dt t y = y"
  by (simp add: relax_def)

lemma relax_funpow_fixed:
  assumes "\<bar>fl (fl t - (relax fl dt t ^^ k) c)\<bar> \<le> fl (1/100)"
  shows "(relax fl dt t ^^ (k + m)) c = (relax fl dt t ^^ k) c"
proof (induction m)
  case 0
  show ?case by simp
next
  case (Suc m)
  then show ?case using relax_fixed [OF assms] by simp
qed

lemma relax_funpow_bound:
  assumes R: "rounding fl" and dt: "1/1000000 \<le> dt" "dt \<le> 1"
    and rep: "fl c = c" and cb: "\<bar>c\<bar> \<le> 100000" and tb: "\<bar>t\<bar> \<le> 2"
  shows "(\<exists>k\<le>n. \<bar>fl (fl t - (relax fl dt t ^^ k) c)\<bar> \<le> fl (1/100))
       \<or> \<bar>fl t - (relax fl dt t ^^ n) c\<bar> \<le> \<bar>fl t - c\<bar> - real n / 1000000000"
proof (induction n)
  case 0
  show ?case by simp
next
  case (Suc n)
  have pos: "0 < dt" using dt(1) by linarith
  let ?y = "(relax fl dt t ^^ n) c"
  show ?case
  proof (cases "\<exists>k\<le>n. \<bar>fl (fl t - (relax fl dt t ^^ k) c)\<bar> \<le> fl (1/100)")
    case True
    then show ?thesis using le_Suc_eq by blast
  next
    case False
    then have "\<not> \<bar>fl (fl t - ?y)\<bar> \<le> fl (1/100)" by blast
    then have mv: "\<bar>fl (fl t - ?y)\<bar> > fl (1/100)" by linarith
    from False Suc have b: "\<bar>fl t - ?y\<bar> \<le> \<bar>fl t - c\<bar> - real n / 1000000000" by blast
    have i: "fl ?y = ?y" "\<bar>?y\<bar> \<le> 100000"
      using relax_funpow_inv [OF R pos dt(2) rep cb tb, of n] by simp_all
    have "\<bar>fl t - relax fl dt t ?y\<bar> \<le> \<bar>fl t - ?y\<bar> - 1/1000000000"
      by (rule relax_progress [OF R dt i tb mv])
    with b have "\<bar>fl t - (relax fl dt t ^^ Suc n) c\<bar> \<le> \<bar>fl t - c\<bar> - real (Suc n) / 1000000000"
      by (simp add: field_simps)
    then show ?thesis by blast
  qed
qed

lemma relax_settles:
  assumes R: "rounding fl" and dt: "1/1000000 \<le> dt" "dt \<le> 1"
    and rep: "fl c = c" and cb: "\<bar>c\<bar> \<le> 100000" and tb: "\<bar>t\<bar> \<le> 2"
  shows "\<exists>N. \<forall>n\<ge>N. \<bar>fl (fl t - (relax fl dt t ^^ n) c)\<bar> \<le> fl (1/100)
                 \<and> (relax fl dt t ^^ Suc n) c = (relax fl dt t ^^ n) c"
proof -
  obtain N :: nat where N: "\<bar>fl t - c\<bar> * 1000000000 < real N"
    using reals_Archimedean2 by blast
  then have "\<bar>fl t - c\<bar> - real N / 1000000000 < 0" by (simp add: field_simps)
  then have "\<not> \<bar>fl t - (relax fl dt t ^^ N) c\<bar> \<le> \<bar>fl t - c\<bar> - real N / 1000000000"
    by linarith
  with relax_funpow_bound [OF assms, of N]
  obtain k where k: "k \<le> N" "\<bar>fl (fl t - (relax fl dt t ^^ k) c)\<bar> \<le> fl (1/100)" by blast
  have "\<bar>fl (fl t - (relax fl dt t ^^ n) c)\<bar> \<le> fl (1/100)
      \<and> (relax fl dt t ^^ Suc n) c = (relax fl dt t ^^ n) c" if "n \<ge> N" for n
  proof -
    have a: "(relax fl dt t ^^ n) c = (relax fl dt t ^^ k) c"
      using relax_funpow_fixed [OF k(2), of "n - k"] that k(1) by simp
    have b: "(relax fl dt t ^^ Suc n) c = (relax fl dt t ^^ k) c"
      using relax_funpow_fixed [OF k(2), of "Suc n - k"] that k(1) by (simp add: Suc_diff_le)
    show ?thesis using a b k(2) by simp
  qed
  then show ?thesis by blast
qed

lemma below_threshold:
  fixes a x th :: real
  assumes "\<bar>a - x\<bar> \<le> \<bar>x\<bar> / 1000000000000000" "\<bar>a\<bar> \<le> th"
    and "th \<le> 1/100 + 1/100000000000000000"
  shows "\<bar>x\<bar> \<le> 1/100 + 1/10000000000"
proof -
  have "\<bar>x\<bar> - \<bar>a\<bar> \<le> \<bar>a - x\<bar>" by linarith
  with assms have "\<bar>x\<bar> - \<bar>x\<bar> / 1000000000000000 \<le> 1/100 + 1/100000000000000000"
    by linarith
  then show ?thesis by linarith
qed

lemma settled_distance:
  assumes R: "rounding fl" and cb: "\<bar>c\<bar> \<le> 100000" and tb: "\<bar>t\<bar> \<le> 2"
    and st: "\<bar>fl (fl t - c)\<bar> \<le> fl (1/100)"
  shows "\<bar>t - c\<bar> \<le> 1/100 + 1/1000000000"
proof -
  have T: "\<bar>fl t - t\<bar> \<le> 2 / 1000000000000000" "\<bar>fl t\<bar> \<le> 3"
    by (rule rounding_target [OF R tb])+
  show ?thesis
  proof (cases "1/1000 \<le> \<bar>fl t - c\<bar>")
    case True
    have "\<bar>fl t - c\<bar> \<le> 1000000" using T(2) cb by linarith
    from rounding_error_rel [OF R True this] st rounding_threshold(2) [OF R]
    have "\<bar>fl t - c\<bar> \<le> 1/100 + 1/10000000000" by (rule below_threshold)
    with T(1) show ?thesis by linarith
  next
    case False
    with T(1) show ?thesis by linarith
  qed
qed

lemma eventually_for_all_below:
  "(\<forall>i<k. \<exists>N. \<forall>n\<ge>N. P i (n::nat)) \<Longrightarrow> \<exists>N. \<forall>n\<ge>N. \<forall>i<k::nat. P i n"
proof (induction k)
  case 0
  show ?case by simp
next
  case (Suc k)
  then obtain N1 where N1: "\<forall>n\<ge>N1. \<forall>i<k. P i n" by auto
  from Suc.prems obtain N2 where N2: "\<forall>n\<ge>N2. P k n" by blast
  have "\<forall>n\<ge>max N1 N2. \<forall>i<Suc k. P i n"
    using N1 N2 by (auto simp: less_Suc_eq)
  then show ?case by blast
qed

lemma idle_at_rest_idle: "\<not> isMoving idle_at_rest"
  by (simp add: idle_at_rest_def)

subsubsection \<open>A time step that is absorbed\<close>

text \<open>A time step can be too small for the loop to make progress. Rounding to the nearest multiple
  of \<open>1 / 2 ^ 70\<close> has the four properties of \<^const>\<open>rounding\<close>, and with it and the time step
  \<open>1 / 2 ^ 80\<close> an actuator at 1/2 whose default is 0.9 fails the 0.01 test and is never
  moved: the increment is rounded to 0.\<close>

lemma nearest_multiple_error:
  fixes x q :: real
  assumes "0 < q"
  shows "\<bar>real_of_int \<lfloor>x * q + 1/2\<rfloor> / q - x\<bar> \<le> (1/2) / q"
proof -
  define k where "k = real_of_int \<lfloor>x * q + 1/2\<rfloor>"
  have "\<bar>k - x * q\<bar> \<le> 1/2" unfolding k_def by linarith
  then have "\<bar>k - x * q\<bar> / q \<le> (1/2) / q" using assms by (intro divide_right_mono) simp_all
  moreover have "k / q - x = (k - x * q) / q" using assms by (simp add: field_simps)
  ultimately show ?thesis using assms unfolding k_def [symmetric] by simp
qed

lemma rounding_fixed_point: "rounding fixed_point"
proof -
  have e: "\<bar>fixed_point x - x\<bar> \<le> 1 / 2 ^ 71" for x
    using nearest_multiple_error [of "2 ^ 70" x] by (simp add: fixed_point_def)
  have m: "fixed_point x \<le> fixed_point y" if "x \<le> y" for x y
  proof -
    have "\<lfloor>x * 2 ^ 70 + 1/2\<rfloor> \<le> \<lfloor>y * 2 ^ 70 + 1/2\<rfloor>" using that by (intro floor_mono) simp
    then show ?thesis by (simp add: fixed_point_def divide_right_mono)
  qed
  have i: "fixed_point (fixed_point x) = fixed_point x" for x
    by (simp add: fixed_point_def)
  have z: "fixed_point 0 = 0" by (simp add: fixed_point_def)
  have r: "\<bar>fixed_point x - x\<bar> \<le> max \<bar>x\<bar> (1/1000) / 2 ^ 53" for x
  proof -
    have "(1::real) / 2 ^ 71 \<le> (1/1000) / 2 ^ 53" by simp
    also have "\<dots> \<le> max \<bar>x\<bar> (1/1000) / 2 ^ 53" by (intro divide_right_mono) simp_all
    finally show ?thesis using e [of x] by linarith
  qed
  show ?thesis unfolding rounding_def using m i z r by blast
qed

lemma small_step_absorbed:
  "fixed_point (1/2) = 1/2"
  "\<bar>fixed_point (fixed_point (9/10) - 1/2)\<bar> > fixed_point (1/100)"
  "relax fixed_point (1 / 2 ^ 80) (9/10) (1/2) = 1/2"
  by code_simp+

lemma funpow_fixed: "f x = x \<Longrightarrow> (f ^^ n) x = x"
  by (induction n) simp_all

lemma small_step_never_moves:
  "ctrl ((update_fl fixed_point (1 / 2 ^ 80) ^^ n) idle_half) ! 1 = 1/2"
  "\<bar>DEFAULT_POSE ! 1 - ctrl ((update_fl fixed_point (1 / 2 ^ 80) ^^ n) idle_half) ! 1\<bar> = 4/10"
proof -
  have idle: "\<not> isMoving idle_half" by (simp add: idle_half_def)
  have c: "ctrl idle_half ! Suc 0 = 1/2" "length (ctrl idle_half) = 12"
    by (simp_all add: idle_half_def)
  have d: "DEFAULT_POSE ! Suc 0 = 9/10" by (simp add: DEFAULT_POSE_def)
  have "(relax fixed_point (1 / 2 ^ 80) (9/10) ^^ n) (1/2) = 1/2"
    by (rule funpow_fixed) (rule small_step_absorbed(3))
  then show a: "ctrl ((update_fl fixed_point (1 / 2 ^ 80) ^^ n) idle_half) ! 1 = 1/2"
    using update_idle_funpow [OF idle, where fl = fixed_point and dt = "1 / 2 ^ 80" and n = n]
    by (simp add: c d NUM_MOTORS_12)
  show "\<bar>DEFAULT_POSE ! 1 - ctrl ((update_fl fixed_point (1 / 2 ^ 80) ^^ n) idle_half) ! 1\<bar> = 4/10"
    unfolding a using d by simp
qed

text \<open>A large time step overshoots whatever the rounding is: with \<open>dt = 6\<close> the thigh
  actuator of the front right leg goes from 0 to at least 2.6, further from its default 0.9
  than it was.\<close>

lemma large_step_overshoots:
  assumes R: "rounding fl"
  shows "26/10 \<le> ctrl (update_fl fl 6 idle_at_rest) ! 1"
proof -
  define T where "T = fl (9/10)"
  define h where "h = fl (T * (1/2))"
  define inc where "inc = fl (h * 6)"
  have T: "\<bar>T - 9/10\<bar> \<le> 2 / 1000000000000000"
    unfolding T_def by (rule rounding_target(1) [OF R]) simp
  have Tr: "fl T = T" unfolding T_def by (rule rounding_idem [OF R])
  have th: "fl (1/100) \<le> 1/100 + 1/100000000000000000" by (rule rounding_threshold(2) [OF R])
  have "fl (1/100) < \<bar>T\<bar>" using T th by linarith
  then have mv: "\<bar>fl (T - 0)\<bar> > fl (1/100)" by (simp add: Tr)
  have "\<bar>T * (1/2)\<bar> \<le> 1" using T by linarith
  then have "\<bar>h - T * (1/2)\<bar> \<le> 1 / 1000000000000000"
    unfolding h_def by (rule rounding_error_le [OF R]) simp_all
  with T have h: "44/100 \<le> h" "h \<le> 46/100" by linarith+
  then have "\<bar>h * 6\<bar> \<le> 3" by linarith
  then have "\<bar>inc - h * 6\<bar> \<le> 3 / 1000000000000000"
    unfolding inc_def by (rule rounding_error_le [OF R]) simp_all
  with h have i: "26/10 \<le> inc" by linarith
  have ir: "fl inc = inc" unfolding inc_def by (rule rounding_idem [OF R])
  have c: "ctrl idle_at_rest ! Suc 0 = 0" "length (ctrl idle_at_rest) = 12"
    by (simp_all add: idle_at_rest_def)
  have d: "DEFAULT_POSE ! Suc 0 = 9/10" by (simp add: DEFAULT_POSE_def)
  have "ctrl (update_fl fl 6 idle_at_rest) ! Suc 0 = relax fl 6 (9/10) 0"
    using update_idle(3) [OF idle_at_rest_idle, of "Suc 0" fl 6]
    by (simp add: c d NUM_MOTORS_12)
  also have "\<dots> = fl (0 + fl (fl (fl (T - 0) * (1/2)) * 6))"
    using mv by (simp add: relax_def T_def)
  also have "\<dots> = inc"
    by (simp add: Tr h_def inc_def rounding_idem [OF R])
  finally show ?thesis using i by simp
qed

text \<open>
  Claim C8, as stated: for every \<open>dt > 0\<close> an idle update moves each actuator towards its
  default value. With \<open>dt = 6\<close> the thigh actuator of the front right leg, at 0 and with
  default 0.9, is moved to 2.7: its distance to the default grows from 0.9 to 1.8.
\<close>

theorem idle_update_overshoots_for_large_dt:
  "\<not> isMoving idle_at_rest
 \<and> ctrl idle_at_rest ! 1 = 0 \<and> DEFAULT_POSE ! 1 = 9/10
 \<and> ctrl (update 6 idle_at_rest) ! 1 = 27/10
 \<and> \<bar>DEFAULT_POSE ! 1 - ctrl (update 6 idle_at_rest) ! 1\<bar> > \<bar>DEFAULT_POSE ! 1 - ctrl idle_at_rest ! 1\<bar>"
proof -
  have c: "ctrl idle_at_rest ! Suc 0 = 0" "length (ctrl idle_at_rest) = 12"
    by (simp_all add: idle_at_rest_def)
  have d: "DEFAULT_POSE ! Suc 0 = 9/10" by (simp add: DEFAULT_POSE_def)
  have "ctrl (update 6 idle_at_rest) ! Suc 0 = 27/10"
    using update_idle(3) [OF idle_at_rest_idle, of "Suc 0" "\<lambda>x. x" 6]
    by (simp add: update_def c d NUM_MOTORS_12 relax_def)
  then show ?thesis using idle_at_rest_idle c d by simp
qed

text \<open>
  Claim C8, amended: setting the direction to (0, 0) clears the moving flag. In an idle
  controller whose first twelve actuator values are doubles of magnitude at most 100000,
  with the arithmetic of doubles (every operation rounded to the nearest double, \<open>fl\<close>) and
  for every time step \<open>0 < dt \<le> 1\<close>, an update never changes the moving flag; it leaves an
  actuator alone when the rounded difference \<open>target - current\<close> to its default is at most
  0.01 in magnitude, and replaces its value \<open>current\<close> by
  \<open>current + (target - current) * 0.5 * dt\<close> otherwise; the new value lies between the old
  value and the default (it gets no further from the default and does not pass it). If
  moreover \<open>dt\<close> is at least 1/1000000, then after finitely many updates every actuator
  passes the 0.01 test, is no longer changed, and is within 0.01 + 1/1000000000 of the
  default pose.
\<close>

theorem idle_relaxation:
  assumes "rounding fl" and "\<not> isMoving s" and "0 < dt" and "dt \<le> 1"
    and "\<forall>i<NUM_MOTORS. i < length (ctrl s) \<longrightarrow>
           fl (ctrl s ! i) = ctrl s ! i \<and> \<bar>ctrl s ! i\<bar> \<le> 100000"
  shows "\<not> isMoving (setDirection 0 0 s0)
       \<and> \<not> isMoving (update_fl fl dt s)
       \<and> (\<forall>i<NUM_MOTORS. i < length (ctrl s) \<longrightarrow>
            ctrl (update_fl fl dt s) ! i =
              (if \<bar>fl (fl (DEFAULT_POSE ! i) - ctrl s ! i)\<bar> > fl (1/100)
               then fl (ctrl s ! i
                        + fl (fl (fl (fl (DEFAULT_POSE ! i) - ctrl s ! i) * (1/2)) * dt))
               else ctrl s ! i)
          \<and> ((ctrl s ! i \<le> ctrl (update_fl fl dt s) ! i
               \<and> ctrl (update_fl fl dt s) ! i \<le> fl (DEFAULT_POSE ! i))
            \<or> (fl (DEFAULT_POSE ! i) \<le> ctrl (update_fl fl dt s) ! i
               \<and> ctrl (update_fl fl dt s) ! i \<le> ctrl s ! i)))
       \<and> (\<forall>n. \<not> isMoving ((update_fl fl dt ^^ n) s))
       \<and> (1/1000000 \<le> dt \<longrightarrow>
            (\<exists>N. \<forall>n\<ge>N. \<forall>i<NUM_MOTORS. i < length (ctrl s) \<longrightarrow>
               \<bar>fl (fl (DEFAULT_POSE ! i) - ctrl ((update_fl fl dt ^^ n) s) ! i)\<bar> \<le> fl (1/100)
             \<and> ctrl ((update_fl fl dt ^^ Suc n) s) ! i = ctrl ((update_fl fl dt ^^ n) s) ! i
             \<and> \<bar>DEFAULT_POSE ! i - ctrl ((update_fl fl dt ^^ n) s) ! i\<bar> \<le> 1/100 + 1/1000000000))"
proof -
  note R = assms(1) and idle = assms(2) and dt = assms(3,4)
  have vals: "fl (ctrl s ! i) = ctrl s ! i" "\<bar>ctrl s ! i\<bar> \<le> 100000"
    if "i < NUM_MOTORS" "i < length (ctrl s)" for i
    using assms(5) that by blast+
  have step: "ctrl (update_fl fl dt s) ! i = relax fl dt (DEFAULT_POSE ! i) (ctrl s ! i)"
    if "i < NUM_MOTORS" "i < length (ctrl s)" for i
    using that idle by (simp add: update_idle)
  have one: "\<forall>i<NUM_MOTORS. i < length (ctrl s) \<longrightarrow>
            ctrl (update_fl fl dt s) ! i =
              (if \<bar>fl (fl (DEFAULT_POSE ! i) - ctrl s ! i)\<bar> > fl (1/100)
               then fl (ctrl s ! i
                        + fl (fl (fl (fl (DEFAULT_POSE ! i) - ctrl s ! i) * (1/2)) * dt))
               else ctrl s ! i)
          \<and> ((ctrl s ! i \<le> ctrl (update_fl fl dt s) ! i
               \<and> ctrl (update_fl fl dt s) ! i \<le> fl (DEFAULT_POSE ! i))
            \<or> (fl (DEFAULT_POSE ! i) \<le> ctrl (update_fl fl dt s) ! i
               \<and> ctrl (update_fl fl dt s) ! i \<le> ctrl s ! i))"
  proof (intro allI impI conjI)
    fix i assume i: "i < NUM_MOTORS" "i < length (ctrl s)"
    show "ctrl (update_fl fl dt s) ! i =
              (if \<bar>fl (fl (DEFAULT_POSE ! i) - ctrl s ! i)\<bar> > fl (1/100)
               then fl (ctrl s ! i
                        + fl (fl (fl (fl (DEFAULT_POSE ! i) - ctrl s ! i) * (1/2)) * dt))
               else ctrl s ! i)"
      unfolding step [OF i] by (simp add: relax_def)
    show "(ctrl s ! i \<le> ctrl (update_fl fl dt s) ! i
               \<and> ctrl (update_fl fl dt s) ! i \<le> fl (DEFAULT_POSE ! i))
            \<or> (fl (DEFAULT_POSE ! i) \<le> ctrl (update_fl fl dt s) ! i
               \<and> ctrl (update_fl fl dt s) ! i \<le> ctrl s ! i)"
      unfolding step [OF i]
      by (rule relax_between [OF R dt vals [OF i] DEFAULT_POSE_bound [OF i(1)]])
  qed
  have flag: "\<forall>n. \<not> isMoving ((update_fl fl dt ^^ n) s)"
    using update_idle_funpow [OF idle] by blast
  have conv: "\<exists>N. \<forall>n\<ge>N. \<forall>i<NUM_MOTORS. i < length (ctrl s) \<longrightarrow>
               \<bar>fl (fl (DEFAULT_POSE ! i) - ctrl ((update_fl fl dt ^^ n) s) ! i)\<bar> \<le> fl (1/100)
             \<and> ctrl ((update_fl fl dt ^^ Suc n) s) ! i = ctrl ((update_fl fl dt ^^ n) s) ! i
             \<and> \<bar>DEFAULT_POSE ! i - ctrl ((update_fl fl dt ^^ n) s) ! i\<bar> \<le> 1/100 + 1/1000000000"
    if small: "1/1000000 \<le> dt"
  proof (rule eventually_for_all_below, intro allI impI)
    fix i assume i: "i < NUM_MOTORS"
    let ?t = "DEFAULT_POSE ! i"
    show "\<exists>N. \<forall>n\<ge>N. i < length (ctrl s) \<longrightarrow>
               \<bar>fl (fl ?t - ctrl ((update_fl fl dt ^^ n) s) ! i)\<bar> \<le> fl (1/100)
             \<and> ctrl ((update_fl fl dt ^^ Suc n) s) ! i = ctrl ((update_fl fl dt ^^ n) s) ! i
             \<and> \<bar>?t - ctrl ((update_fl fl dt ^^ n) s) ! i\<bar> \<le> 1/100 + 1/1000000000"
    proof (cases "i < length (ctrl s)")
      case False
      then show ?thesis by simp
    next
      case True
      let ?c = "ctrl s ! i"
      note v = vals [OF i True] and tb = DEFAULT_POSE_bound [OF i]
      have it: "ctrl ((update_fl fl dt ^^ n) s) ! i = (relax fl dt ?t ^^ n) ?c" for n
        using update_idle_funpow [OF idle, where fl = fl and dt = dt and n = n] i True by blast
      obtain N where N: "\<forall>n\<ge>N. \<bar>fl (fl ?t - (relax fl dt ?t ^^ n) ?c)\<bar> \<le> fl (1/100)
                 \<and> (relax fl dt ?t ^^ Suc n) ?c = (relax fl dt ?t ^^ n) ?c"
        using relax_settles [OF R small dt(2) v tb] by blast
      have "\<bar>?t - (relax fl dt ?t ^^ n) ?c\<bar> \<le> 1/100 + 1/1000000000" if "n \<ge> N" for n
      proof (rule settled_distance [OF R _ tb])
        show "\<bar>(relax fl dt ?t ^^ n) ?c\<bar> \<le> 100000"
          using relax_funpow_inv [OF R dt v tb, of n] by simp
        show "\<bar>fl (fl ?t - (relax fl dt ?t ^^ n) ?c)\<bar> \<le> fl (1/100)"
          using N that by blast
      qed
      with N show ?thesis unfolding it by blast
    qed
  qed
  have "\<not> isMoving (setDirection 0 0 s0)" by (simp add: setDirection_def)
  then show ?thesis
    using update_idle(1) [OF idle] one flag conv by blast
qed

theorem idle_relaxation_witness:
  "rounding (\<lambda>x. x) \<and> \<not> isMoving idle_at_rest \<and> (0::real) < 1/500 \<and> (1/500::real) \<le> 1
 \<and> ctrl idle_at_rest = replicate 12 0
 \<and> (1::nat) < NUM_MOTORS \<and> 1 < length (ctrl idle_at_rest) \<and> (1/1000000::real) \<le> 1/500
 \<and> ctrl (update_fl (\<lambda>x. x) (1/500) idle_at_rest) ! 1 = 9/10000
 \<and> (\<exists>N. \<forall>n\<ge>N. \<forall>i<NUM_MOTORS. i < length (ctrl idle_at_rest) \<longrightarrow>
       \<bar>DEFAULT_POSE ! i - ctrl ((update_fl (\<lambda>x. x) (1/500) ^^ n) idle_at_rest) ! i\<bar>
         \<le> 1/100 + 1/1000000000)"
proof -
  have r: "rounding (\<lambda>x. x)" by (simp add: rounding_def le_max_iff_disj)
  have h: "(0::real) < 1/500" "(1/500::real) \<le> 1" "(1/1000000::real) \<le> 1/500" by simp_all
  have b: "\<forall>i<NUM_MOTORS. i < length (ctrl idle_at_rest) \<longrightarrow>
             ctrl idle_at_rest ! i = ctrl idle_at_rest ! i \<and> \<bar>ctrl idle_at_rest ! i\<bar> \<le> 100000"
    by (simp add: idle_at_rest_def)
  have i: "(1::nat) < NUM_MOTORS" "1 < length (ctrl idle_at_rest)"
    by (simp_all add: NUM_MOTORS_12 idle_at_rest_def)
  have v: "ctrl idle_at_rest ! 1 = 0" "DEFAULT_POSE ! 1 = 9/10"
    by (simp_all add: idle_at_rest_def DEFAULT_POSE_def)
  note t = idle_relaxation [OF r idle_at_rest_idle h(1,2) b]
  from t i have "ctrl (update_fl (\<lambda>x. x) (1/500) idle_at_rest) ! 1 =
      (if \<bar>DEFAULT_POSE ! 1 - ctrl idle_at_rest ! 1\<bar> > 1/100
       then ctrl idle_at_rest ! 1 + (DEFAULT_POSE ! 1 - ctrl idle_at_rest ! 1) * (1/2) * (1/500)
       else ctrl idle_at_rest ! 1)"
    by blast
  then have e: "ctrl (update_fl (\<lambda>x. x) (1/500) idle_at_rest) ! 1 = 9/10000"
    unfolding v by simp
  from t h(3) have "\<exists>N. \<forall>n\<ge>N. \<forall>i<NUM_MOTORS. i < length (ctrl idle_at_rest) \<longrightarrow>
       \<bar>DEFAULT_POSE ! i - ctrl ((update_fl (\<lambda>x. x) (1/500) ^^ n) idle_at_rest) ! i\<bar>
         \<le> 1/100 + 1/1000000000"
    by blast
  moreover have "ctrl idle_at_rest = replicate 12 0" by (simp add: idle_at_rest_def)
  ultimately show ?thesis using r idle_at_rest_idle h i e by simp
qed
section \<open>Properties of the scene builder\<close>

subsection \<open>Failure of a build\<close>

lemma load_Inl:
  "fst (loadSceneFromURL (Inl e) p) = None"
  "scene (snd (loadSceneFromURL (Inl e) p)) = scene p"
  "mujocoRoot (snd (loadSceneFromURL (Inl e) p)) = mujocoRoot p"
  by (simp_all add: loadSceneFromURL_def Let_def)

lemma load_bad_names:
  assumes "check_names m = Inl e"
  shows "fst (loadSceneFromURL (Inr m) p) = None"
    "scene (snd (loadSceneFromURL (Inr m) p)) = scene p"
    "mujocoRoot (snd (loadSceneFromURL (Inr m) p)) = mujocoRoot p"
  using assms by (simp_all add: loadSceneFromURL_def Let_def)

lemma load_geom_fail:
  assumes "check_names m = Inr names_array"
    and "fst (geom_loop names_array [0 ..< ngeom m] (new_build m)) = Some e"
  shows "fst (loadSceneFromURL (Inr m) p) = None"
    "scene (snd (loadSceneFromURL (Inr m) p)) = scene p @ [Group (Some ''MuJoCo Root'') None False []]"
    "mujocoRoot (snd (loadSceneFromURL (Inr m) p)) = mujocoRoot p"
proof -
  obtain st where "geom_loop names_array [0 ..< ngeom m] (new_build m) = (Some e, st)"
    using assms(2) by (cases "geom_loop names_array [0 ..< ngeom m] (new_build m)") simp
  then show "fst (loadSceneFromURL (Inr m) p) = None"
    "scene (snd (loadSceneFromURL (Inr m) p)) = scene p @ [Group (Some ''MuJoCo Root'') None False []]"
    "mujocoRoot (snd (loadSceneFromURL (Inr m) p)) = mujocoRoot p"
    using assms(1) by (simp_all add: loadSceneFromURL_def Let_def)
qed

lemma load_ok:
  assumes "check_names m = Inr names_array"
    and "fst (geom_loop names_array [0 ..< ngeom m] (new_build m)) = None"
  shows "\<exists>r mroot. fst (loadSceneFromURL (Inr m) p) = Some r
        \<and> scene (snd (loadSceneFromURL (Inr m) p)) = scene p @ [mroot]
        \<and> mujocoRoot (snd (loadSceneFromURL (Inr m) p)) = Some (mroot, new_tendon_pools)"
proof -
  obtain st where "geom_loop names_array [0 ..< ngeom m] (new_build m) = (None, st)"
    using assms(2) by (cases "geom_loop names_array [0 ..< ngeom m] (new_build m)") simp
  then show ?thesis
    using assms(1) by (simp add: loadSceneFromURL_def Let_def split: prod.splits)
qed

lemma load_cases:
  obtains (thrown) e where "loaded = Inl e"
  | (bad_names) m e where "loaded = Inr m" "check_names m = Inl e"
  | (geom_fail) m names_array e where "loaded = Inr m" "check_names m = Inr names_array"
      "fst (geom_loop names_array [0 ..< ngeom m] (new_build m)) = Some e"
  | (ok) m names_array where "loaded = Inr m" "check_names m = Inr names_array"
      "fst (geom_loop names_array [0 ..< ngeom m] (new_build m)) = None"
proof (cases loaded)
  case (Inl e)
  then show ?thesis by (rule thrown)
next
  case (Inr m)
  show ?thesis
  proof (cases "check_names m")
    case (Inl e)
    with Inr show ?thesis by (rule bad_names)
  next
    case names: (Inr names_array)
    show ?thesis
    proof (cases "fst (geom_loop names_array [0 ..< ngeom m] (new_build m))")
      case None
      with Inr names show ?thesis by (rule ok)
    next
      case (Some e)
      with Inr names show ?thesis by (rule geom_fail)
    qed
  qed
qed

text \<open>
  Claim C3, as stated: on any exception during the build no partially attached hierarchy
  is left in the live scene. The root group is added to the scene before the loop over
  the geometries; when a geometry whose material has a texture of width -1 makes
  \<^verbatim>\<open>new Uint8Array\<close> throw, the loader returns \<^verbatim>\<open>null\<close> and the scene has one child more
  than before: the root group.
\<close>

theorem load_failure_leaves_root_attached:
  "fst (loadSceneFromURL (Inr bad_texture_model) empty_parent) = None
 \<and> scene (snd (loadSceneFromURL (Inr bad_texture_model) empty_parent)) =
      scene empty_parent @ [Group (Some ''MuJoCo Root'') None False []]
 \<and> scene (snd (loadSceneFromURL (Inr bad_texture_model) empty_parent)) \<noteq> scene empty_parent"
  by code_simp

text \<open>
  Claim C3, amended: if the name blob is absent or empty the build throws an
  \<^verbatim>\<open>Error\<close> (``Invalid model.names array''), catches it and returns the sentinel \<^verbatim>\<open>null\<close>,
  and the children of the scene and the application's root are as before; the same holds
  when loading the model throws. An exception in the loop over the geometries also makes
  the build return \<^verbatim>\<open>null\<close> with the application's root as before, but the root group of
  the failed build, without children, stays in the scene. So a failed build leaves the
  scene unchanged or with that one empty group added, and a build that does not fail
  adds the finished root to the scene and makes it the application's root.
\<close>

theorem load_failure_modes:
  "(names m = None \<or> names m = Some [] \<longrightarrow>
      check_names m = Inl (Error ''Invalid model.names array'')
    \<and> fst (loadSceneFromURL (Inr m) p) = None
    \<and> scene (snd (loadSceneFromURL (Inr m) p)) = scene p
    \<and> mujocoRoot (snd (loadSceneFromURL (Inr m) p)) = mujocoRoot p)
 \<and> (fst (loadSceneFromURL (Inl e) p) = None
    \<and> scene (snd (loadSceneFromURL (Inl e) p)) = scene p
    \<and> mujocoRoot (snd (loadSceneFromURL (Inl e) p)) = mujocoRoot p)
 \<and> (check_names m = Inr names_array
      \<and> fst (geom_loop names_array [0 ..< ngeom m] (new_build m)) = Some e' \<longrightarrow>
      fst (loadSceneFromURL (Inr m) p) = None
    \<and> scene (snd (loadSceneFromURL (Inr m) p)) = scene p @ [Group (Some ''MuJoCo Root'') None False []]
    \<and> mujocoRoot (snd (loadSceneFromURL (Inr m) p)) = mujocoRoot p)
 \<and> (fst (loadSceneFromURL loaded p) = None \<longrightarrow>
      mujocoRoot (snd (loadSceneFromURL loaded p)) = mujocoRoot p
    \<and> (scene (snd (loadSceneFromURL loaded p)) = scene p
       \<or> scene (snd (loadSceneFromURL loaded p)) = scene p @ [Group (Some ''MuJoCo Root'') None False []]))
 \<and> (fst (loadSceneFromURL loaded p) \<noteq> None \<longrightarrow>
      (\<exists>mroot. scene (snd (loadSceneFromURL loaded p)) = scene p @ [mroot]
             \<and> mujocoRoot (snd (loadSceneFromURL loaded p)) = Some (mroot, new_tendon_pools)))"
proof -
  have a: "check_names m = Inl (Error ''Invalid model.names array'')
    \<and> fst (loadSceneFromURL (Inr m) p) = None
    \<and> scene (snd (loadSceneFromURL (Inr m) p)) = scene p
    \<and> mujocoRoot (snd (loadSceneFromURL (Inr m) p)) = mujocoRoot p"
    if "names m = None \<or> names m = Some []"
  proof -
    have c: "check_names m = Inl (Error ''Invalid model.names array'')"
      using that by (auto simp: check_names_def)
    then show ?thesis by (simp add: load_bad_names)
  qed
  have d: "mujocoRoot (snd (loadSceneFromURL loaded p)) = mujocoRoot p
    \<and> (scene (snd (loadSceneFromURL loaded p)) = scene p
       \<or> scene (snd (loadSceneFromURL loaded p)) = scene p @ [Group (Some ''MuJoCo Root'') None False []])"
    if n: "fst (loadSceneFromURL loaded p) = None"
  proof (cases loaded rule: load_cases)
    case (thrown e)
    then show ?thesis by (simp add: load_Inl)
  next
    case (bad_names m e)
    then show ?thesis by (simp add: load_bad_names)
  next
    case (geom_fail m names_array e)
    then show ?thesis by (simp add: load_geom_fail)
  next
    case (ok m names_array)
    then show ?thesis using n load_ok [of m names_array p] by auto
  qed
  have f: "\<exists>mroot. scene (snd (loadSceneFromURL loaded p)) = scene p @ [mroot]
             \<and> mujocoRoot (snd (loadSceneFromURL loaded p)) = Some (mroot, new_tendon_pools)"
    if n: "fst (loadSceneFromURL loaded p) \<noteq> None"
  proof (cases loaded rule: load_cases)
    case (thrown e)
    then show ?thesis using n by (simp add: load_Inl)
  next
    case (bad_names m e)
    then show ?thesis using n by (simp add: load_bad_names)
  next
    case (geom_fail m names_array e)
    then show ?thesis using n by (simp add: load_geom_fail)
  next
    case (ok m names_array)
    then show ?thesis using load_ok [of m names_array p] by auto
  qed
  show ?thesis
    using a d f load_Inl [of e p] load_geom_fail [of m names_array e' p] by blast
qed

subsection \<open>The memoised material\<close>

lemma geom_appearance_texture:
  assumes "geom_appearance m g r = Inr (c, Some t)"
  shows "tex_ref t = r"
  using assms
  by (auto simp: geom_appearance_def make_texture_def Let_def split: if_splits sum.splits)

lemma geom_appearance_mesh_data [simp]:
  "geom_appearance (m\<lparr> mesh_vert := a, mesh_normal := b \<rparr>) g r = geom_appearance m g r"
  by (simp add: geom_appearance_def make_texture_def Let_def)

lemma new_material_fields:
  "color (new_material m g (c0, c1, c2, c3) t r) = new_Color c0 c1 c2"
  "opacity (new_material m g (c0, c1, c2, c3) t r) = (if c3 = Undefined then Num 1 else c3)"
  "map_tex (new_material m g c t r) = t"
  "mat_ref (new_material m g c t r) = r"
  by (simp_all add: new_material_def Let_def split: prod.splits)

lemma resolve_material_unfold:
  assumes "resolve_material g st = Inr (t, st')"
  obtains c where "geom_appearance (model st) g (next_ref st) = Inr (c, t)"
    and "st' = (let r1 = (case t of Some _ \<Rightarrow> next_ref st + 1 | None \<Rightarrow> next_ref st)
                in if material_differs (material st) c t
                   then st\<lparr> material := new_material (model st) g c t r1, next_ref := r1 + 1 \<rparr>
                   else st\<lparr> next_ref := r1 \<rparr>)"
  using assms
  by (auto simp: resolve_material_def Let_def split: sum.splits if_splits)

lemma resolve_material_effect:
  assumes "resolve_material g st = Inr (t, st')"
  shows "\<exists>c. geom_appearance (model st) g (next_ref st) = Inr (c, t)
       \<and> model st' = model st \<and> bodies st' = bodies st \<and> meshes st' = meshes st
       \<and> next_ref st \<le> next_ref st'
       \<and> (t \<noteq> None \<longrightarrow> next_ref st < next_ref st')
       \<and> (if material_differs (material st) c t
           then material st' = new_material (model st) g c t (next_ref st' - 1)
              \<and> mat_ref (material st') = next_ref st' - 1 \<and> next_ref st < next_ref st'
           else material st' = material st)"
proof -
  from assms obtain c where c: "geom_appearance (model st) g (next_ref st) = Inr (c, t)"
    and s: "st' = (let r1 = (case t of Some _ \<Rightarrow> next_ref st + 1 | None \<Rightarrow> next_ref st)
                in if material_differs (material st) c t
                   then st\<lparr> material := new_material (model st) g c t r1, next_ref := r1 + 1 \<rparr>
                   else st\<lparr> next_ref := r1 \<rparr>)"
    by (rule resolve_material_unfold)
  have "model st' = model st \<and> bodies st' = bodies st \<and> meshes st' = meshes st
       \<and> next_ref st \<le> next_ref st'
       \<and> (t \<noteq> None \<longrightarrow> next_ref st < next_ref st')
       \<and> (if material_differs (material st) c t
           then material st' = new_material (model st) g c t (next_ref st' - 1)
              \<and> mat_ref (material st') = next_ref st' - 1 \<and> next_ref st < next_ref st'
           else material st' = material st)"
    unfolding s by (cases t) (simp_all add: Let_def new_material_fields)
  with c show ?thesis by blast
qed

lemma resolve_material_refs_below:
  assumes "resolve_material g st = Inr (t, st')" "refs_below st"
  shows "refs_below st'"
proof -
  obtain c where c: "geom_appearance (model st) g (next_ref st) = Inr (c, t)"
    and le: "next_ref st \<le> next_ref st'" "t \<noteq> None \<longrightarrow> next_ref st < next_ref st'"
    and e: "if material_differs (material st) c t
           then material st' = new_material (model st) g c t (next_ref st' - 1)
              \<and> mat_ref (material st') = next_ref st' - 1 \<and> next_ref st < next_ref st'
           else material st' = material st"
    using resolve_material_effect [OF assms(1)] by blast
  obtain c0 c1 c2 c3 where cc: "c = (c0, c1, c2, c3)" by (cases c)
  show ?thesis
  proof (cases "material_differs (material st) c t")
    case True
    with e have m: "material st' = new_material (model st) g c t (next_ref st' - 1)"
      "mat_ref (material st') = next_ref st' - 1" "next_ref st < next_ref st'"
      by (simp_all add: new_material_fields)
    have "case t of Some x \<Rightarrow> tex_ref x < next_ref st' | None \<Rightarrow> True"
      using c geom_appearance_texture [of "model st" g "next_ref st" c] m(3)
      by (auto split: option.splits)
    then show ?thesis using m by (simp add: refs_below_def cc new_material_fields)
  next
    case False
    with e have "material st' = material st" by simp
    then show ?thesis using assms(2) le by (auto simp: refs_below_def split: option.splits)
  qed
qed

lemma ensure_body_keeps [simp]:
  "material (ensure_body na b st) = material st"
  "next_ref (ensure_body na b st) = next_ref st"
  "model (ensure_body na b st) = model st"
  "meshes (ensure_body na b st) = meshes st"
  by (simp_all add: ensure_body_def split: option.splits)

lemma mesh_data_same: "\<exists>a n. m = m\<lparr> mesh_vert := a, mesh_normal := n \<rparr>"
  by (rule exI [of _ "mesh_vert m"], rule exI [of _ "mesh_normal m"]) simp

lemma new_mesh_geometry_model:
  "\<exists>a n. snd (new_mesh_geometry k m) = m\<lparr> mesh_vert := a, mesh_normal := n \<rparr>"
  unfolding new_mesh_geometry_def Let_def snd_conv by (intro exI) (rule refl)

lemma make_geometry_model:
  "model (snd (make_geometry g b type st)) = model st
 \<or> model (snd (make_geometry g b type st)) = snd (new_mesh_geometry (rdI (geom_dataid (model st)) g) (model st))"
  by (simp add: make_geometry_def Let_def split: option.splits prod.splits)

lemma make_geometry_keeps:
  assumes "make_geometry g b type st = (geo, st')"
  shows "material st' = material st" "next_ref st' = next_ref st"
    "\<exists>a n. model st' = (model st)\<lparr> mesh_vert := a, mesh_normal := n \<rparr>"
proof -
  show "material st' = material st" "next_ref st' = next_ref st"
    using assms
    by (auto simp: make_geometry_def Let_def split: if_splits option.splits prod.splits)
  have "st' = snd (make_geometry g b type st)" using assms by simp
  then show "\<exists>a n. model st' = (model st)\<lparr> mesh_vert := a, mesh_normal := n \<rparr>"
    using make_geometry_model [of g b type st] mesh_data_same [of "model st"]
      new_mesh_geometry_model [of "rdI (geom_dataid (model st)) g" "model st"]
    by metis
qed

lemma geom_step_visible:
  assumes "js_lt (rdN (geom_group (model st)) g) (Num 3)" "geom_step na g st = (None, st')"
  obtains st2 t st3 where "material st2 = material st" "next_ref st2 = next_ref st"
    "geom_appearance (model st2) g (next_ref st) = geom_appearance (model st) g (next_ref st)"
    "resolve_material g st2 = Inr (t, st3)"
    "material st' = material st3" "next_ref st' = next_ref st3" "model st' = model st3"
proof -
  let ?b = "rdN (geom_bodyid (model st)) g"
  let ?type = "rdN (geom_type (model st)) g"
  obtain geo st2 where mg: "make_geometry g ?b ?type (ensure_body na ?b st) = (geo, st2)"
    by (cases "make_geometry g ?b ?type (ensure_body na ?b st)")
  from assms mg obtain t st3 where rm: "resolve_material g st2 = Inr (t, st3)"
    and st': "material st' = material st3" "next_ref st' = next_ref st3" "model st' = model st3"
    by (auto simp: geom_step_def Let_def split: sum.splits prod.splits)
  from make_geometry_keeps [OF mg]
  have k: "material st2 = material st" "next_ref st2 = next_ref st"
    "\<exists>a n. model st2 = (model st)\<lparr> mesh_vert := a, mesh_normal := n \<rparr>"
    by simp_all
  from k(3) have ga: "geom_appearance (model st2) g (next_ref st) = geom_appearance (model st) g (next_ref st)"
    by auto
  from that [OF k(1,2) ga rm st'] show ?thesis .
qed

text \<open>A visible geometry whose material has a texture is given a new material, whatever
  the memoised one is: its texture object has just been made, and the memoised material
  holds an older one or none.\<close>

lemma textured_geometry_allocates:
  assumes inv: "refs_below st"
    and v: "js_lt (rdN (geom_group (model st)) g) (Num 3)"
    and s: "geom_step na g st = (None, st')"
    and a: "geom_appearance (model st) g (next_ref st) = Inr (c, Some t)"
  shows "mat_ref (material st) < mat_ref (material st')" and "map_tex (material st') = Some t"
proof -
  obtain sa ta sb where sa: "material sa = material st" "next_ref sa = next_ref st"
      "geom_appearance (model sa) g (next_ref st) = geom_appearance (model st) g (next_ref st)"
      "resolve_material g sa = Inr (ta, sb)"
      "material st' = material sb" "next_ref st' = next_ref sb" "model st' = model sb"
    using v s by (rule geom_step_visible)
  have ea: "geom_appearance (model sa) g (next_ref sa) = Inr (c, Some t)"
    using sa(2,3) a by simp
  from resolve_material_effect [OF sa(4)] ea
  have ta: "ta = Some t"
    and step: "if material_differs (material sa) c (Some t)
           then material sb = new_material (model sa) g c (Some t) (next_ref sb - 1)
              \<and> mat_ref (material sb) = next_ref sb - 1 \<and> next_ref sa < next_ref sb
           else material sb = material sa"
    by auto
  have fresh: "tex_ref t = next_ref st"
    using geom_appearance_texture [OF ea] sa(2) by simp
  have old: "mat_ref (material st) < next_ref st"
    "case map_tex (material st) of Some x \<Rightarrow> tex_ref x < next_ref st | None \<Rightarrow> True"
    using inv by (simp_all add: refs_below_def)
  have "\<not> same_texture (map_tex (material sa)) (Some t)"
    using old(2) fresh sa(1) by (simp add: same_texture_def split: option.splits)
  then have "material_differs (material sa) c (Some t)"
    by (simp add: material_differs_def split: prod.splits)
  with step have m: "material sb = new_material (model sa) g c (Some t) (next_ref sb - 1)"
    "mat_ref (material sb) = next_ref sb - 1" "next_ref sa < next_ref sb"
    by (simp_all add: new_material_fields)
  show "mat_ref (material st) < mat_ref (material st')"
    using old(1) m(2,3) sa(2,5) by simp
  show "map_tex (material st') = Some t"
    using m(1) sa(5) by (simp add: new_material_fields)
qed

text \<open>
  Claim C7 at two geometries that share a textured material. The two spheres of
  \<^const>\<open>ball_model\<close> both have material 0, whose texture is texture 0: the colour, the
  opacity and the texture data derived for the second are those derived for the first.
  The claim has the second sphere reuse the material of the first. The builder makes a
  texture object for each of them (serial numbers 1 and 3), the guard compares the
  memoised texture with the new one by identity, and the second sphere is given a second
  material (serial number 4, after 2). Without a texture the guard does what the claim
  says: of the three red spheres of \<^const>\<open>paint_model\<close> the second reuses the material of
  the first, and the third, of another opacity, gets a new one.
\<close>

theorem textured_material_allocated_twice:
  "rdI (geom_matid ball_model) 0 = Num 0 \<and> rdI (geom_matid ball_model) 1 = Num 0
 \<and> rdI_at (mat_texid ball_model) (Num 0) = Num 0
 \<and> fst (geom_step [119, 0] 0 (new_build ball_model)) = None
 \<and> fst (geom_step [119, 0] 1 ball1) = None
 \<and> geom_appearance (model (new_build ball_model)) 0 (next_ref (new_build ball_model)) =
     Inr ((Num 1, Num 0, Num 0, Num 1),
          Some \<lparr> tex_ref = 1, tex_data = [255, 0, 0, 1], tex_w = Num 1, tex_h = Num 1, tex_repeat = (1, 1) \<rparr>)
 \<and> geom_appearance (model ball1) 1 (next_ref ball1) =
     Inr ((Num 1, Num 0, Num 0, Num 1),
          Some \<lparr> tex_ref = 3, tex_data = [255, 0, 0, 1], tex_w = Num 1, tex_h = Num 1, tex_repeat = (1, 1) \<rparr>)
 \<and> mat_ref (material ball1) = 2 \<and> mat_ref (material ball2) = 4
 \<and> color (material ball1) = (Num 1, Num 0, Num 0) \<and> color (material ball2) = (Num 1, Num 0, Num 0)
 \<and> opacity (material ball1) = Num 1 \<and> opacity (material ball2) = Num 1
 \<and> map_option tex_ref (map_tex (material ball1)) = Some 1
 \<and> map_option tex_ref (map_tex (material ball2)) = Some 3
 \<and> mat_ref (material paint1) = 1 \<and> mat_ref (material paint2) = 1
 \<and> mat_ref (material paint3) = 2 \<and> opacity (material paint3) = Num (1/2)"
  by code_simp

theorem load_failure_modes_witness:
  "names (ball_model\<lparr> names := Some [] \<rparr>) = Some []
 \<and> fst (loadSceneFromURL (Inr (ball_model\<lparr> names := Some [] \<rparr>)) empty_parent) = None
 \<and> scene (snd (loadSceneFromURL (Inr (ball_model\<lparr> names := Some [] \<rparr>)) empty_parent)) = scene empty_parent
 \<and> check_names bad_texture_model = Inr [119, 0]
 \<and> fst (geom_loop [119, 0] [0 ..< ngeom bad_texture_model] (new_build bad_texture_model)) = Some RangeError
 \<and> fst (loadSceneFromURL (Inr bad_texture_model) empty_parent) = None
 \<and> scene (snd (loadSceneFromURL (Inr bad_texture_model) empty_parent)) =
      scene empty_parent @ [Group (Some ''MuJoCo Root'') None False []]
 \<and> mujocoRoot (snd (loadSceneFromURL (Inr bad_texture_model) empty_parent)) = None
 \<and> fst (loadSceneFromURL (Inr ball_model) empty_parent) \<noteq> None
 \<and> (\<exists>mroot. scene (snd (loadSceneFromURL (Inr ball_model) empty_parent)) = scene empty_parent @ [mroot]
      \<and> mujocoRoot (snd (loadSceneFromURL (Inr ball_model) empty_parent)) = Some (mroot, new_tendon_pools))"
proof -
  have n: "names (ball_model\<lparr> names := Some [] \<rparr>) = None \<or> names (ball_model\<lparr> names := Some [] \<rparr>) = Some []"
    by simp
  have c: "check_names bad_texture_model = Inr [119, 0]"
    by code_simp
  have g: "fst (geom_loop [119, 0] [0 ..< ngeom bad_texture_model] (new_build bad_texture_model)) = Some RangeError"
    by code_simp
  have f: "fst (loadSceneFromURL (Inr bad_texture_model) empty_parent) = None"
    by code_simp
  have k: "fst (loadSceneFromURL (Inr ball_model) empty_parent) \<noteq> None"
    by code_simp
  have e: "mujocoRoot empty_parent = None" by (simp add: empty_parent_def)
  note t1 = load_failure_modes [of "ball_model\<lparr> names := Some [] \<rparr>" empty_parent "Error ''x''"
      "[]" RangeError "Inr ball_model"]
  note t2 = load_failure_modes [of bad_texture_model empty_parent "Error ''x''"
      "[119, 0]" RangeError "Inr bad_texture_model"]
  from t1 n have a: "fst (loadSceneFromURL (Inr (ball_model\<lparr> names := Some [] \<rparr>)) empty_parent) = None
    \<and> scene (snd (loadSceneFromURL (Inr (ball_model\<lparr> names := Some [] \<rparr>)) empty_parent)) = scene empty_parent"
    by blast
  from t1 k have b: "\<exists>mroot. scene (snd (loadSceneFromURL (Inr ball_model) empty_parent)) = scene empty_parent @ [mroot]
      \<and> mujocoRoot (snd (loadSceneFromURL (Inr ball_model) empty_parent)) = Some (mroot, new_tendon_pools)"
    by blast
  from t2 c g have d: "scene (snd (loadSceneFromURL (Inr bad_texture_model) empty_parent)) =
      scene empty_parent @ [Group (Some ''MuJoCo Root'') None False []]
    \<and> mujocoRoot (snd (loadSceneFromURL (Inr bad_texture_model) empty_parent)) = mujocoRoot empty_parent"
    by blast
  show ?thesis using a b c d e f g k by simp
qed

subsection \<open>Mesh synthesis\<close>

lemma to_number_js_neg [simp]: "to_number (js_neg v) = js_neg v"
  by (cases v) simp_all

lemma swizzle_at_full:
  assumes "3 * k + 2 < view_length vw" "v_begin vw + view_length vw \<le> length buffer"
  shows "swizzle_at vw (3 * k) buffer =
           buffer[v_begin vw + 3 * k + 1 := to_number (buffer ! (v_begin vw + 3 * k + 2)),
                  v_begin vw + 3 * k + 2 := js_neg (buffer ! (v_begin vw + 3 * k + 1))]"
  using assms by (simp add: swizzle_at_def view_get_def view_set_def Let_def add.assoc)

lemma swizzle_triples:
  assumes "3 * n \<le> view_length vw" "v_begin vw + view_length vw \<le> length buffer"
  shows "length (fold (\<lambda>k. swizzle_at vw (3 * k)) [0 ..< n] buffer) = length buffer
       \<and> (\<forall>k<n.
            fold (\<lambda>k. swizzle_at vw (3 * k)) [0 ..< n] buffer ! (v_begin vw + 3 * k) =
              buffer ! (v_begin vw + 3 * k)
          \<and> fold (\<lambda>k. swizzle_at vw (3 * k)) [0 ..< n] buffer ! (v_begin vw + 3 * k + 1) =
              to_number (buffer ! (v_begin vw + 3 * k + 2))
          \<and> fold (\<lambda>k. swizzle_at vw (3 * k)) [0 ..< n] buffer ! (v_begin vw + 3 * k + 2) =
              js_neg (buffer ! (v_begin vw + 3 * k + 1)))
       \<and> (\<forall>i. i < v_begin vw \<or> v_begin vw + 3 * n \<le> i \<longrightarrow>
            fold (\<lambda>k. swizzle_at vw (3 * k)) [0 ..< n] buffer ! i = buffer ! i)"
  using assms(1)
proof (induction n)
  case 0
  show ?case by simp
next
  case (Suc n)
  let ?b = "v_begin vw"
  let ?F = "fold (\<lambda>k. swizzle_at vw (3 * k)) [0 ..< n] buffer"
  from Suc have n: "3 * n + 2 < view_length vw" and ih_pre: "3 * n \<le> view_length vw" by simp_all
  note ih = Suc.IH [OF ih_pre]
  have len: "length ?F = length buffer" using ih by simp
  have old: "?F ! i = buffer ! i" if "i < ?b \<or> ?b + 3 * n \<le> i" for i
    using ih that by blast
  have step: "fold (\<lambda>k. swizzle_at vw (3 * k)) [0 ..< Suc n] buffer =
      ?F[?b + 3 * n + 1 := to_number (buffer ! (?b + 3 * n + 2)),
         ?b + 3 * n + 2 := js_neg (buffer ! (?b + 3 * n + 1))]"
    using swizzle_at_full [OF n, of ?F] assms(2) len old [of "?b + 3 * n + 1"] old [of "?b + 3 * n + 2"]
    by simp
  have in_range: "?b + 3 * n + 2 < length ?F" using n assms(2) len by simp
  show ?case
  proof (intro conjI allI impI)
    show "length (fold (\<lambda>k. swizzle_at vw (3 * k)) [0 ..< Suc n] buffer) = length buffer"
      unfolding step using len by simp
  next
    fix k assume k: "k < Suc n"
    show "fold (\<lambda>k. swizzle_at vw (3 * k)) [0 ..< Suc n] buffer ! (?b + 3 * k) = buffer ! (?b + 3 * k)"
      unfolding step using k ih old [of "?b + 3 * n"] by (cases "k = n") (auto simp: less_Suc_eq)
    show "fold (\<lambda>k. swizzle_at vw (3 * k)) [0 ..< Suc n] buffer ! (?b + 3 * k + 1) =
            to_number (buffer ! (?b + 3 * k + 2))"
      unfolding step using k ih in_range by (cases "k = n") (auto simp: less_Suc_eq nth_list_update)
    show "fold (\<lambda>k. swizzle_at vw (3 * k)) [0 ..< Suc n] buffer ! (?b + 3 * k + 2) =
            js_neg (buffer ! (?b + 3 * k + 1))"
      unfolding step using k ih in_range by (cases "k = n") (auto simp: less_Suc_eq nth_list_update)
  next
    fix i assume "i < ?b \<or> ?b + 3 * Suc n \<le> i"
    then show "fold (\<lambda>k. swizzle_at vw (3 * k)) [0 ..< Suc n] buffer ! i = buffer ! i"
      unfolding step using old [of i] by auto
  qed
qed

lemma js_index_nat [simp]: "js_index (Num (real k)) = Some k"
  by (simp add: js_index_def)

lemma rdN_at_nat: "k < length buffer \<Longrightarrow> rdN_at buffer (Num (real k)) = Num (real (buffer ! k))"
  by (simp add: rdN_at_def rdN_def)

lemma js_mul_Num: "js_mul (Num a) (Num b) = Num (a * b)"
  by (simp add: js_mul_def js_arith_def)

lemma js_add_Num: "js_add (Num a) (Num b) = Num (a + b)"
  by (simp add: js_add_def js_arith_def)

lemma subarray_nat:
  "subarray len (Num (real a)) (Num (real b)) =
     \<lparr> v_begin = min a len, v_end = max (min a len) (min b len) \<rparr>"
  by (simp add: subarray_def Let_def)

lemma vertex_window:
  assumes "3 * (a + n) \<le> len"
  shows "subarray len (js_mul (Num (real a)) (Num 3)) (js_mul (js_add (Num (real a)) (Num (real n))) (Num 3)) =
           \<lparr> v_begin = 3 * a, v_end = 3 * (a + n) \<rparr>"
proof -
  have "real a * 3 = real (3 * a)" "(real a + real n) * 3 = real (3 * (a + n))" by simp_all
  then have "subarray len (js_mul (Num (real a)) (Num 3)) (js_mul (js_add (Num (real a)) (Num (real n))) (Num 3)) =
      subarray len (Num (real (3 * a))) (Num (real (3 * (a + n))))"
    by (simp only: js_mul_Num js_add_Num)
  also have "\<dots> = \<lparr> v_begin = 3 * a, v_end = 3 * (a + n) \<rparr>"
    using assms unfolding subarray_nat by (simp add: min_def max_def)
  finally show ?thesis .
qed

lemma swizzle_view_window:
  assumes "3 * (a + n) \<le> length buffer"
  shows "length (swizzle_view \<lparr> v_begin = 3 * a, v_end = 3 * (a + n) \<rparr> buffer) = length buffer"
    and "j < n \<Longrightarrow>
         swizzle_view \<lparr> v_begin = 3 * a, v_end = 3 * (a + n) \<rparr> buffer ! (3 * (a + j)) =
           buffer ! (3 * (a + j))
       \<and> swizzle_view \<lparr> v_begin = 3 * a, v_end = 3 * (a + n) \<rparr> buffer ! (3 * (a + j) + 1) =
           to_number (buffer ! (3 * (a + j) + 2))
       \<and> swizzle_view \<lparr> v_begin = 3 * a, v_end = 3 * (a + n) \<rparr> buffer ! (3 * (a + j) + 2) =
           js_neg (buffer ! (3 * (a + j) + 1))"
    and "i < 3 * a \<or> 3 * (a + n) \<le> i \<Longrightarrow>
         swizzle_view \<lparr> v_begin = 3 * a, v_end = 3 * (a + n) \<rparr> buffer ! i = buffer ! i"
proof -
  let ?vw = "\<lparr> v_begin = 3 * a, v_end = 3 * (a + n) \<rparr>"
  have vl: "view_length ?vw = 3 * n" by (simp add: view_length_def)
  have d: "(3 * n + 2) div 3 = n" by arith
  have sv: "swizzle_view ?vw buffer = fold (\<lambda>k. swizzle_at ?vw (3 * k)) [0 ..< n] buffer"
    unfolding swizzle_view_def vl d ..
  have pre: "3 * n \<le> view_length ?vw" "v_begin ?vw + view_length ?vw \<le> length buffer"
    using assms by (simp_all add: view_length_def)
  note t = swizzle_triples [OF pre]
  show "length (swizzle_view ?vw buffer) = length buffer"
    unfolding sv using t by blast
  show "swizzle_view ?vw buffer ! (3 * (a + j)) = buffer ! (3 * (a + j))
       \<and> swizzle_view ?vw buffer ! (3 * (a + j) + 1) = to_number (buffer ! (3 * (a + j) + 2))
       \<and> swizzle_view ?vw buffer ! (3 * (a + j) + 2) = js_neg (buffer ! (3 * (a + j) + 1))"
    if "j < n"
  proof -
    have e: "3 * (a + j) = v_begin ?vw + 3 * j" by simp
    show ?thesis unfolding sv e using t that by blast
  qed
  show "swizzle_view ?vw buffer ! i = buffer ! i" if "i < 3 * a \<or> 3 * (a + n) \<le> i"
  proof -
    have "i < v_begin ?vw \<or> v_begin ?vw + 3 * n \<le> i" using that by simp
    then show ?thesis unfolding sv using t by blast
  qed
qed

lemma mesh_pass_fields:
  assumes "k < length (mesh_vertadr m)" "k < length (mesh_vertnum m)"
    and "3 * (mesh_vertadr m ! k + mesh_vertnum m ! k) \<le> length (mesh_vert m)"
    and "3 * (mesh_vertadr m ! k + mesh_vertnum m ! k) \<le> length (mesh_normal m)"
  shows "mesh_vert (mesh_pass k m) =
           swizzle_view \<lparr> v_begin = 3 * (mesh_vertadr m ! k),
                          v_end = 3 * (mesh_vertadr m ! k + mesh_vertnum m ! k) \<rparr> (mesh_vert m)"
    and "mesh_normal (mesh_pass k m) =
           swizzle_view \<lparr> v_begin = 3 * (mesh_vertadr m ! k),
                          v_end = 3 * (mesh_vertadr m ! k + mesh_vertnum m ! k) \<rparr> (mesh_normal m)"
    and "mesh_vertadr (mesh_pass k m) = mesh_vertadr m"
    and "mesh_vertnum (mesh_pass k m) = mesh_vertnum m"
    and "\<exists>uv idx. fst (new_mesh_geometry (Num (real k)) m) =
           BufferGeometry
             \<lparr> bg_position = \<lparr> v_begin = 3 * (mesh_vertadr m ! k),
                               v_end = 3 * (mesh_vertadr m ! k + mesh_vertnum m ! k) \<rparr>,
               bg_normal = \<lparr> v_begin = 3 * (mesh_vertadr m ! k),
                             v_end = 3 * (mesh_vertadr m ! k + mesh_vertnum m ! k) \<rparr>,
               bg_uv = uv, bg_index = idx \<rparr>"
proof -
  let ?a = "mesh_vertadr m ! k" and ?n = "mesh_vertnum m ! k"
  let ?vw = "\<lparr> v_begin = 3 * ?a, v_end = 3 * (?a + ?n) \<rparr>"
  have r: "rdN_at (mesh_vertadr m) (Num (real k)) = Num (real ?a)"
    "rdN_at (mesh_vertnum m) (Num (real k)) = Num (real ?n)"
    using assms(1,2) by (simp_all add: rdN_at_nat)
  have w: "subarray (length (mesh_vert m))
             (js_mul (rdN_at (mesh_vertadr m) (Num (real k))) (Num 3))
             (js_mul (js_add (rdN_at (mesh_vertadr m) (Num (real k)))
                             (rdN_at (mesh_vertnum m) (Num (real k)))) (Num 3)) = ?vw"
    "subarray (length (mesh_normal m))
             (js_mul (rdN_at (mesh_vertadr m) (Num (real k))) (Num 3))
             (js_mul (js_add (rdN_at (mesh_vertadr m) (Num (real k)))
                             (rdN_at (mesh_vertnum m) (Num (real k)))) (Num 3)) = ?vw"
    unfolding r using vertex_window [OF assms(3)] vertex_window [OF assms(4)] by simp_all
  show "mesh_vert (mesh_pass k m) = swizzle_view ?vw (mesh_vert m)"
    "mesh_normal (mesh_pass k m) = swizzle_view ?vw (mesh_normal m)"
    "mesh_vertadr (mesh_pass k m) = mesh_vertadr m"
    "mesh_vertnum (mesh_pass k m) = mesh_vertnum m"
    "\<exists>uv idx. fst (new_mesh_geometry (Num (real k)) m) =
           BufferGeometry \<lparr> bg_position = ?vw, bg_normal = ?vw, bg_uv = uv, bg_index = idx \<rparr>"
    by (simp_all add: mesh_pass_def new_mesh_geometry_def Let_def w)
qed

lemma make_geometry_mesh:
  "make_geometry g b mjGEOM_MESH st =
     (let meshID = rdI (geom_dataid (model st)) g;
          (geometry', st1) =
             (case meshes st meshID of
                None \<Rightarrow>
                  (case new_mesh_geometry meshID (model st) of (geo, m') \<Rightarrow>
                     (geo, st\<lparr> model := m', meshes := (meshes st)(meshID \<mapsto> geo) \<rparr>))
              | Some geo \<Rightarrow> (geo, st))
      in (geometry',
          st1\<lparr> bodies := (case bodies st1 b of
                             Some body \<Rightarrow> (bodies st1)(b \<mapsto> set_has_custom_mesh body)
                           | None \<Rightarrow> bodies st1) \<rparr>))"
  by (simp add: make_geometry_def Let_def js_eq_def mjGEOM_MESH_def mjGEOM_PLANE_def mjGEOM_HFIELD_def
      mjGEOM_SPHERE_def mjGEOM_CAPSULE_def mjGEOM_ELLIPSOID_def mjGEOM_CYLINDER_def mjGEOM_BOX_def)

text \<open>
  Claim C9: the synthesis of a triangle mesh does not copy the model's vertex and normal
  data. The position and normal attributes of the geometry are windows on the model's
  own \<^verbatim>\<open>mesh_vert\<close> and \<^verbatim>\<open>mesh_normal\<close> buffers, and the axis swap is applied through them:
  in each vertex \<open>(x, y, z)\<close> of the mesh the model is left with \<open>(x, z, -y)\<close>, the buffers
  keep their length and everything outside the mesh's range is untouched. A second pass
  over the data that the first has left swaps again and gives \<open>(x, -y, -z)\<close>. Within one
  build the pass runs only for a mesh that is not yet in the cache.
\<close>

theorem mesh_data_swizzled_in_place:
  assumes k: "k < length (mesh_vertadr m)" "k < length (mesh_vertnum m)"
    and rv: "3 * (mesh_vertadr m ! k + mesh_vertnum m ! k) \<le> length (mesh_vert m)"
    and rn: "3 * (mesh_vertadr m ! k + mesh_vertnum m ! k) \<le> length (mesh_normal m)"
    and j: "j < mesh_vertnum m ! k"
    and v: "mesh_vert m ! (3 * (mesh_vertadr m ! k + j)) = Num x"
      "mesh_vert m ! (3 * (mesh_vertadr m ! k + j) + 1) = Num y"
      "mesh_vert m ! (3 * (mesh_vertadr m ! k + j) + 2) = Num z"
    and n: "mesh_normal m ! (3 * (mesh_vertadr m ! k + j)) = Num nx"
      "mesh_normal m ! (3 * (mesh_vertadr m ! k + j) + 1) = Num ny"
      "mesh_normal m ! (3 * (mesh_vertadr m ! k + j) + 2) = Num nz"
  shows "(\<exists>uv idx. fst (new_mesh_geometry (Num (real k)) m) =
           BufferGeometry
             \<lparr> bg_position = \<lparr> v_begin = 3 * (mesh_vertadr m ! k),
                               v_end = 3 * (mesh_vertadr m ! k + mesh_vertnum m ! k) \<rparr>,
               bg_normal = \<lparr> v_begin = 3 * (mesh_vertadr m ! k),
                             v_end = 3 * (mesh_vertadr m ! k + mesh_vertnum m ! k) \<rparr>,
               bg_uv = uv, bg_index = idx \<rparr>)
       \<and> length (mesh_vert (mesh_pass k m)) = length (mesh_vert m)
       \<and> length (mesh_normal (mesh_pass k m)) = length (mesh_normal m)
       \<and> mesh_vert (mesh_pass k m) ! (3 * (mesh_vertadr m ! k + j)) = Num x
       \<and> mesh_vert (mesh_pass k m) ! (3 * (mesh_vertadr m ! k + j) + 1) = Num z
       \<and> mesh_vert (mesh_pass k m) ! (3 * (mesh_vertadr m ! k + j) + 2) = Num (- y)
       \<and> mesh_normal (mesh_pass k m) ! (3 * (mesh_vertadr m ! k + j)) = Num nx
       \<and> mesh_normal (mesh_pass k m) ! (3 * (mesh_vertadr m ! k + j) + 1) = Num nz
       \<and> mesh_normal (mesh_pass k m) ! (3 * (mesh_vertadr m ! k + j) + 2) = Num (- ny)
       \<and> (\<forall>i. i < 3 * (mesh_vertadr m ! k) \<or> 3 * (mesh_vertadr m ! k + mesh_vertnum m ! k) \<le> i \<longrightarrow>
             mesh_vert (mesh_pass k m) ! i = mesh_vert m ! i
           \<and> mesh_normal (mesh_pass k m) ! i = mesh_normal m ! i)
       \<and> mesh_vert (mesh_pass k (mesh_pass k m)) ! (3 * (mesh_vertadr m ! k + j)) = Num x
       \<and> mesh_vert (mesh_pass k (mesh_pass k m)) ! (3 * (mesh_vertadr m ! k + j) + 1) = Num (- y)
       \<and> mesh_vert (mesh_pass k (mesh_pass k m)) ! (3 * (mesh_vertadr m ! k + j) + 2) = Num (- z)
       \<and> (model st = m \<and> rdI (geom_dataid m) g = Num (real k) \<longrightarrow>
            (meshes st (Num (real k)) = None \<longrightarrow>
               model (snd (make_geometry g b mjGEOM_MESH st)) = mesh_pass k m)
          \<and> (meshes st (Num (real k)) \<noteq> None \<longrightarrow>
               model (snd (make_geometry g b mjGEOM_MESH st)) = m))"
proof -
  let ?a = "mesh_vertadr m ! k" and ?n = "mesh_vertnum m ! k"
  let ?vw = "\<lparr> v_begin = 3 * ?a, v_end = 3 * (?a + ?n) \<rparr>"
  let ?m1 = "mesh_pass k m"
  note f = mesh_pass_fields [OF k rv rn]
  note sv = swizzle_view_window [OF rv] and sn = swizzle_view_window [OF rn]
  have len: "length (mesh_vert ?m1) = length (mesh_vert m)"
    "length (mesh_normal ?m1) = length (mesh_normal m)"
    unfolding f using sv(1) sn(1) by simp_all
  have v1: "mesh_vert ?m1 ! (3 * (?a + j)) = Num x"
    "mesh_vert ?m1 ! (3 * (?a + j) + 1) = Num z"
    "mesh_vert ?m1 ! (3 * (?a + j) + 2) = Num (- y)"
    unfolding f using sv(2) [of j] j v by simp_all
  have n1: "mesh_normal ?m1 ! (3 * (?a + j)) = Num nx"
    "mesh_normal ?m1 ! (3 * (?a + j) + 1) = Num nz"
    "mesh_normal ?m1 ! (3 * (?a + j) + 2) = Num (- ny)"
    unfolding f using sn(2) [of j] j n by simp_all
  have out: "\<forall>i. i < 3 * ?a \<or> 3 * (?a + ?n) \<le> i \<longrightarrow>
             mesh_vert ?m1 ! i = mesh_vert m ! i \<and> mesh_normal ?m1 ! i = mesh_normal m ! i"
    unfolding f using swizzle_view_window(3) [OF rv] swizzle_view_window(3) [OF rn] by blast
  have k': "k < length (mesh_vertadr ?m1)" "k < length (mesh_vertnum ?m1)"
    and rv': "3 * (mesh_vertadr ?m1 ! k + mesh_vertnum ?m1 ! k) \<le> length (mesh_vert ?m1)"
    and rn': "3 * (mesh_vertadr ?m1 ! k + mesh_vertnum ?m1 ! k) \<le> length (mesh_normal ?m1)"
    using k rv rn len f(3,4) by simp_all
  note f2 = mesh_pass_fields(1) [OF k' rv' rn', unfolded f(3,4)]
  have len1: "3 * (?a + ?n) \<le> length (mesh_vert ?m1)" using rv len by simp
  have v2: "mesh_vert (mesh_pass k ?m1) ! (3 * (?a + j)) = Num x"
    "mesh_vert (mesh_pass k ?m1) ! (3 * (?a + j) + 1) = Num (- y)"
    "mesh_vert (mesh_pass k ?m1) ! (3 * (?a + j) + 2) = Num (- z)"
    unfolding f2 using swizzle_view_window(2) [OF len1, of j] j v1 by simp_all
  have uncached: "model (snd (make_geometry g b mjGEOM_MESH st)) = mesh_pass k m"
    if "model st = m" "rdI (geom_dataid m) g = Num (real k)" "meshes st (Num (real k)) = None"
    using that
    by (simp add: make_geometry_mesh mesh_pass_def Let_def split: prod.splits option.splits)
  have cached: "model (snd (make_geometry g b mjGEOM_MESH st)) = m"
    if "model st = m" "rdI (geom_dataid m) g = Num (real k)" "meshes st (Num (real k)) \<noteq> None"
    using that
    by (auto simp: make_geometry_mesh Let_def split: prod.splits option.splits)
  show ?thesis
    using f(5) len v1 n1 out v2 uncached cached by blast
qed

theorem mesh_data_swizzled_in_place_witness:
  "mesh_vert (mesh_pass 0 mesh_model) ! 4 = Num 6
 \<and> mesh_vert (mesh_pass 0 mesh_model) ! 5 = Num (- 5)
 \<and> mesh_vert (mesh_pass 0 (mesh_pass 0 mesh_model)) ! 4 = Num (- 5)
 \<and> mesh_vert (mesh_pass 0 (mesh_pass 0 mesh_model)) ! 5 = Num (- 6)
 \<and> map_option (\<lambda>r. mesh_vert (ls_model r)) (fst (loadSceneFromURL (Inr mesh_model) empty_parent)) =
      Some [Num 1, Num 3, Num (- 2), Num 4, Num 6, Num (- 5)]
 \<and> map_option mesh_vert (parent_model (snd (loadSceneFromURL (Inr mesh_model) empty_parent))) =
      Some [Num 1, Num 3, Num (- 2), Num 4, Num 6, Num (- 5)]
 \<and> map_option (\<lambda>r. mesh_vert (ls_model r))
      (fst (loadSceneFromURL (Inr (mesh_pass 0 mesh_model)) empty_parent)) =
      Some [Num 1, Num (- 2), Num (- 3), Num 4, Num (- 5), Num (- 6)]"
proof -
  have h: "(0::nat) < length (mesh_vertadr mesh_model)" "(0::nat) < length (mesh_vertnum mesh_model)"
    "3 * (mesh_vertadr mesh_model ! 0 + mesh_vertnum mesh_model ! 0) \<le> length (mesh_vert mesh_model)"
    "3 * (mesh_vertadr mesh_model ! 0 + mesh_vertnum mesh_model ! 0) \<le> length (mesh_normal mesh_model)"
    "(1::nat) < mesh_vertnum mesh_model ! 0"
    "mesh_vert mesh_model ! (3 * (mesh_vertadr mesh_model ! 0 + 1)) = Num 4"
    "mesh_vert mesh_model ! (3 * (mesh_vertadr mesh_model ! 0 + 1) + 1) = Num 5"
    "mesh_vert mesh_model ! (3 * (mesh_vertadr mesh_model ! 0 + 1) + 2) = Num 6"
    "mesh_normal mesh_model ! (3 * (mesh_vertadr mesh_model ! 0 + 1)) = Num 0"
    "mesh_normal mesh_model ! (3 * (mesh_vertadr mesh_model ! 0 + 1) + 1) = Num 1"
    "mesh_normal mesh_model ! (3 * (mesh_vertadr mesh_model ! 0 + 1) + 2) = Num 0"
    by (simp_all add: mesh_model_def)
  have a: "3 * (mesh_vertadr mesh_model ! 0 + 1) = 3" by (simp add: mesh_model_def)
  note t = mesh_data_swizzled_in_place [OF h, unfolded a]
  have e: "map_option (\<lambda>r. mesh_vert (ls_model r)) (fst (loadSceneFromURL (Inr mesh_model) empty_parent)) =
      Some [Num 1, Num 3, Num (- 2), Num 4, Num 6, Num (- 5)]"
    "map_option mesh_vert (parent_model (snd (loadSceneFromURL (Inr mesh_model) empty_parent))) =
      Some [Num 1, Num 3, Num (- 2), Num 4, Num 6, Num (- 5)]"
    "map_option (\<lambda>r. mesh_vert (ls_model r))
      (fst (loadSceneFromURL (Inr (mesh_pass 0 mesh_model)) empty_parent)) =
      Some [Num 1, Num (- 2), Num (- 3), Num 4, Num (- 5), Num (- 6)]"
    by code_simp+
  from t have "mesh_vert (mesh_pass 0 mesh_model) ! (3 + 1) = Num 6"
    "mesh_vert (mesh_pass 0 mesh_model) ! (3 + 2) = Num (- 5)"
    "mesh_vert (mesh_pass 0 (mesh_pass 0 mesh_model)) ! (3 + 1) = Num (- 5)"
    "mesh_vert (mesh_pass 0 (mesh_pass 0 mesh_model)) ! (3 + 2) = Num (- 6)"
    by blast+
  then show ?thesis using e by simp
qed

end
